theory Spec2Isabelle
  imports Main
begin

section \<open>Request execution on a replica: pkg/storage/replica\_send.go\<close>

text \<open>
  A shallow embedding of \<^verbatim>\<open>Replica.sendWithRangeID\<close>,
  \<^verbatim>\<open>executeBatchWithConcurrencyRetries\<close>, the four conflict handlers,
  \<^verbatim>\<open>executeAdminBatch\<close> and \<^verbatim>\<open>checkBatchRequest\<close>.

  The replica's collaborators (latch manager, transaction wait queue, intent resolver,
  commit recovery manager, merge watcher, lease acquisition, the read and write executors)
  live in other packages. Their answers are inputs of the model: a script records what
  each of them answers when it is called. What the code passes to them is recorded in a
  trace of events, in call order. Logging and tracing spans are left out: they do not
  change a return value.
\<close>

subsection \<open>Data model\<close>

text \<open>\<^verbatim>\<open>hlc.Timestamp\<close>: wall time and logical counter; the zero value is unassigned.\<close>

record Timestamp =
  WallTime :: int
  Logical :: int

definition zeroTimestamp :: Timestamp where
  "zeroTimestamp = \<lparr>WallTime = 0, Logical = 0\<rparr>"

text \<open>
  Modelled from the spec: \<^verbatim>\<open>hlc.Timestamp.Less\<close> and \<^verbatim>\<open>Forward\<close> are
  not in src. The header's timestamp is advanced "forward to at least" the other one.
\<close>

definition Less :: "Timestamp \<Rightarrow> Timestamp \<Rightarrow> bool" where
  "Less t s = (WallTime t < WallTime s \<or> (WallTime t = WallTime s \<and> Logical t < Logical s))"

definition Forward :: "Timestamp \<Rightarrow> Timestamp \<Rightarrow> Timestamp" where
  "Forward t s = (if Less t s then s else t)"

type_synonym NodeID = nat

datatype TransactionStatus = PENDING | STAGING | COMMITTED | ABORTED

text \<open>
  Modelled from the spec: \<^verbatim>\<open>TransactionStatus.IsFinalized\<close> is not in src. A
  transaction is finalized once it is committed or aborted.
\<close>

definition IsFinalized :: "TransactionStatus \<Rightarrow> bool" where
  "IsFinalized s = (s = COMMITTED \<or> s = ABORTED)"

record TxnMeta =
  ID :: nat
  Priority :: int

record Transaction =
  TxnMeta :: TxnMeta
  Status :: TransactionStatus
  ObservedTimestamps :: "(NodeID \<times> Timestamp) list"

text \<open>
  Modelled from the spec: \<^verbatim>\<open>Transaction.GetObservedTimestamp\<close> is not in src. It
  looks up the clock reading the transaction recorded for a node; \<open>None\<close> is the
  \<^verbatim>\<open>ok = false\<close> result.
\<close>

definition GetObservedTimestamp :: "Transaction \<Rightarrow> NodeID \<Rightarrow> Timestamp option" where
  "GetObservedTimestamp txn nodeID = map_of (ObservedTimestamps txn) nodeID"

datatype ReadConsistencyType = CONSISTENT | READ_UNCOMMITTED | INCONSISTENT

datatype PushTxnType = PUSH_TIMESTAMP | PUSH_ABORT | PUSH_TOUCH

record PushTxnRequest =
  PusherTxn :: Transaction
  PusheeTxn :: TxnMeta
  PushType :: PushTxnType
  Force :: bool

text \<open>The request kinds the file names, and a few plain reads and writes.\<close>

datatype Request =
    GetRequest
  | PutRequest
  | EndTransactionRequest
  | QueryTxnRequest
  | PushTxnRequest PushTxnRequest
  | AdminSplitRequest
  | AdminUnsplitRequest
  | AdminMergeRequest
  | AdminTransferLeaseRequest
  | AdminChangeReplicasRequest
  | AdminRelocateRangeRequest
  | CheckConsistencyRequest
  | ImportRequest
  | AdminScatterRequest

record Header =
  Timestamp :: Timestamp
  ReplicaNodeID :: NodeID
  Txn :: "Transaction option"
  ReadConsistency :: ReadConsistencyType
  GatewayNodeID :: nat
  ReturnRangeInfo :: bool

record BatchRequest =
  Header :: Header
  Requests :: "Request list"

text \<open>
  Modelled from the spec: the classification of a batch (\<^verbatim>\<open>IsWrite\<close>,
  \<^verbatim>\<open>IsAdmin\<close>, \<^verbatim>\<open>IsReadOnly\<close>, \<^verbatim>\<open>IsSinglePushTxnRequest\<close>) is in
  package roachpb, not in src. A batch is a write batch when it holds a write operation,
  an admin batch when it holds an administrative operation, and read-only when it is
  not empty and holds neither.
\<close>

fun isWriteRequest :: "Request \<Rightarrow> bool" where
  "isWriteRequest PutRequest = True"
| "isWriteRequest EndTransactionRequest = True"
| "isWriteRequest (PushTxnRequest p) = True"
| "isWriteRequest req = False"

fun isAdminRequest :: "Request \<Rightarrow> bool" where
  "isAdminRequest GetRequest = False"
| "isAdminRequest PutRequest = False"
| "isAdminRequest EndTransactionRequest = False"
| "isAdminRequest QueryTxnRequest = False"
| "isAdminRequest (PushTxnRequest p) = False"
| "isAdminRequest req = True"

definition IsWrite :: "BatchRequest \<Rightarrow> bool" where
  "IsWrite ba = list_ex isWriteRequest (Requests ba)"

definition IsAdmin :: "BatchRequest \<Rightarrow> bool" where
  "IsAdmin ba = list_ex isAdminRequest (Requests ba)"

definition IsReadOnly :: "BatchRequest \<Rightarrow> bool" where
  "IsReadOnly ba = (Requests ba \<noteq> [] \<and> \<not> IsWrite ba \<and> \<not> IsAdmin ba)"

fun singlePushTxnRequest :: "Request list \<Rightarrow> PushTxnRequest option" where
  "singlePushTxnRequest [PushTxnRequest p] = Some p"
| "singlePushTxnRequest reqs = None"

definition IsSinglePushTxnRequest :: "BatchRequest \<Rightarrow> bool" where
  "IsSinglePushTxnRequest ba = (singlePushTxnRequest (Requests ba) \<noteq> None)"

record Response =
  resp_Txn :: "Transaction option"
  RangeInfos :: bool
  body :: string

record BatchResponse =
  br_Txn :: "Transaction option"
  Responses :: "Response list"

subsection \<open>Errors\<close>

type_synonym Intent = string

text \<open>The structured error details of roachpb that the file names; the rest under one name.\<close>

datatype ErrorDetail =
    WriteIntentError "Intent list"
  | TransactionPushError Transaction
  | IndeterminateCommitError Transaction
  | MergeInProgressError
  | AmbiguousResultError string
  | NodeUnavailableError
  | OtherDetail string

text \<open>
  A Go \<^verbatim>\<open>error\<close> value: a structured detail, a message (\<^verbatim>\<open>errors.New\<close>,
  \<^verbatim>\<open>errors.Errorf\<close>), a wrapped error (\<^verbatim>\<open>errors.Wrap\<close>), or one of the two
  errors of a finished context.
\<close>

datatype GoError =
    Detail ErrorDetail
  | ErrorString string
  | Wrap GoError string
  | Canceled
  | DeadlineExceeded

text \<open>
  \<^verbatim>\<open>roachpb.Error\<close>: what went wrong and, when known, the position in the batch of
  the request that failed (\<^verbatim>\<open>*ErrPosition\<close>, a pointer: \<open>None\<close> is nil).
\<close>

type_synonym ErrPosition = int

record Error =
  GoErr :: GoError
  Index :: "ErrPosition option"

text \<open>
  Modelled from the spec: \<^verbatim>\<open>roachpb.NewError\<close>, \<^verbatim>\<open>NewErrorf\<close> and
  \<^verbatim>\<open>Error.GetDetail\<close> are not in src. \<^verbatim>\<open>NewError\<close> of no error is no error;
  otherwise it is an error with no position. \<^verbatim>\<open>GetDetail\<close> is nil for the nil error
  only ("no error: success"); a type switch on it sees a structured detail as
  \<open>Detail d\<close> and every other error as itself, which is the catch-all "other" kind.
\<close>

definition NewError :: "GoError option \<Rightarrow> Error option" where
  "NewError err = map_option (\<lambda>e. \<lparr>GoErr = e, Index = None\<rparr>) err"

definition NewErrorf :: "string \<Rightarrow> Error option" where
  "NewErrorf msg = Some \<lparr>GoErr = ErrorString msg, Index = None\<rparr>"

definition GetDetail :: "Error option \<Rightarrow> GoError option" where
  "GetDetail pErr = map_option GoErr pErr"

subsection \<open>Batch validation\<close>

fun showReadConsistency :: "ReadConsistencyType \<Rightarrow> string" where
  "showReadConsistency CONSISTENT = ''CONSISTENT''"
| "showReadConsistency READ_UNCOMMITTED = ''READ_UNCOMMITTED''"
| "showReadConsistency INCONSISTENT = ''INCONSISTENT''"

text \<open>
  \<^verbatim>\<open>checkBatchRequest(ba, isReadOnly)\<close>: the Go function returns an \<^verbatim>\<open>error\<close>;
  \<open>None\<close> is nil. It reads fields of the batch only, so it cannot panic.
\<close>

definition checkBatchRequest :: "BatchRequest \<Rightarrow> bool \<Rightarrow> GoError option" where
  "checkBatchRequest ba isReadOnly =
     (if Timestamp (Header ba) = zeroTimestamp then
        Some (ErrorString ''Replica.checkBatchRequest: batch does not have timestamp assigned'')
      else
        let consistent = (ReadConsistency (Header ba) = CONSISTENT) in
        if isReadOnly then
          (if \<not> consistent \<and> Txn (Header ba) \<noteq> None then
             Some (ErrorString (''cannot allow '' @ showReadConsistency (ReadConsistency (Header ba))
                     @ '' reads within a transaction''))
           else None)
        else if \<not> consistent then
          Some (ErrorString (showReadConsistency (ReadConsistency (Header ba))
                  @ '' mode is only available to reads''))
        else None)"

subsection \<open>The replica, its collaborators' answers, and the trace\<close>

text \<open>
  The testing knobs of the store's configuration and the hooks the file consults.
  \<^verbatim>\<open>txnwait.ShouldPushImmediately\<close> and \<^verbatim>\<open>maybeStripInFlightWrites\<close> are
  functions of other files: they are fields here, so every statement holds for whatever
  they compute.
\<close>

record Replica =
  hasLeaseholderStats :: bool
  DontPushOnWriteIntentError :: bool
  DontRetryPushTxnFailures :: bool
  DontRecoverIndeterminateCommits :: bool
  TestingRequestFilter :: "(BatchRequest \<Rightarrow> Error option) option"
  TestingResponseFilter :: "(BatchRequest \<Rightarrow> BatchResponse option \<Rightarrow> Error option) option"
  ShouldPushImmediately :: "PushTxnRequest \<Rightarrow> bool"
  maybeStripInFlightWrites :: "BatchRequest \<Rightarrow> GoError + BatchRequest"

text \<open>
  \<^verbatim>\<open>intentresolver.CleanupFunc\<close>: a closure the intent resolver allocates. The model
  names a handle by the number of the loop iteration that obtained it, so that handles
  obtained in different iterations are different values, as two closures are.
\<close>

type_synonym CleanupFunc = nat

datatype BatchExecutionFn = executeWriteBatch | executeReadOnlyBatch

text \<open>
  The case of the \<^verbatim>\<open>select\<close> in the merge wait that is taken: the one that
  becomes ready first, or the one Go picks when several are ready.
\<close>

datatype SelectCase = MergeComplete | CtxDone GoError | ShouldQuiesce

text \<open>Calls to collaborators, with what the code passes to them.\<close>

datatype Event =
    LeaseholderStatsRecorded nat
  | MaybeInitializeRaftGroupCalled
  | MaybeBackpressureBatchCalled
  | RequestFilterCalled BatchRequest
  | ResponseFilterCalled BatchRequest "BatchResponse option"
  | CollectSpansCalled
  | RecordBatchForLoadBasedSplittingCalled
  | MaybeWaitForPusheeCalled
  | BeginCmdsCalled
  | ExecuteCalled BatchExecutionFn
  | CleanupCalled CleanupFunc "Intent list option" "TxnMeta option"
  | ProcessWriteIntentErrorCalled Error Request Header PushTxnType
  | EnqueueCalled Transaction
  | ResolveIndeterminateCommitCalled Transaction
  | MergeWaitEntered
  | RedirectOnOrAcquireLeaseCalled
  | CheckExecutionCanProceedCalled
  | AdminCommandCalled Request
  | ReturnRangeInfoCalled

text \<open>
  What the collaborators answer during one iteration of the retry loop, each answer read
  only if the iteration makes that call: \<^verbatim>\<open>ctx.Err()\<close>,
  \<^verbatim>\<open>maybeWaitForPushee\<close>, the error of \<^verbatim>\<open>beginCmds\<close>, the executor
  \<^verbatim>\<open>fn\<close>, \<^verbatim>\<open>ProcessWriteIntentError\<close> (whether the cleanup function it
  returns is non-nil, and its error), the error of \<^verbatim>\<open>ResolveIndeterminateCommit\<close>,
  whether \<^verbatim>\<open>getMergeCompleteCh\<close> is non-nil, and the \<^verbatim>\<open>select\<close> case that
  becomes ready (\<open>None\<close>: none ever does).
\<close>

record Iteration =
  ctxErr :: "GoError option"
  waitForPushee :: "BatchResponse option \<times> Error option"
  beginCmdsErr :: "GoError option"
  executed :: "BatchResponse option \<times> Error option"
  processWriteIntentError :: "bool \<times> Error option"
  resolveIndeterminateCommit :: "GoError option"
  mergeCompleteCh :: bool
  selected :: "SelectCase option"

text \<open>The answers during one call of \<^verbatim>\<open>sendWithRangeID\<close>.\<close>

record Script =
  backpressureErr :: "GoError option"
  collectSpansErr :: "GoError option"
  iterations :: "Iteration list"
  leaseErr :: "Error option"
  canProceedErr :: "GoError option"
  adminReply :: Response
  adminPErr :: "Error option"
  adminErr :: "GoError option"

text \<open>
  How a handler ends: it returns, it logs fatally (\<^verbatim>\<open>log.Fatalf\<close> ends the
  process), it panics (nil dereference, index out of range), or it blocks for ever.
\<close>

datatype 'a Result = Returns 'a | Fatals string | Panics | Blocks

subsection \<open>The conflict handlers\<close>

fun isAmbiguousResultError :: "GoError \<Rightarrow> bool" where
  "isAmbiguousResultError (Detail (AmbiguousResultError m)) = True"
| "isAmbiguousResultError err = False"

definition isAmbiguousResult :: "GoError option \<Rightarrow> bool" where
  "isAmbiguousResult d = (case d of None \<Rightarrow> False | Some err \<Rightarrow> isAmbiguousResultError err)"

text \<open>
  The header copy \<^verbatim>\<open>h\<close> of \<^verbatim>\<open>handleWriteIntentError\<close>: with a transaction, the
  timestamp is forwarded to the observed timestamp of the replica's node; \<open>None\<close> is
  the \<^verbatim>\<open>log.Fatalf\<close> branch of a missing observed timestamp.
\<close>

definition pushHeader :: "BatchRequest \<Rightarrow> Header option" where
  "pushHeader ba =
     (let h = Header ba in
      case Txn h of
        None \<Rightarrow> Some h
      | Some txn \<Rightarrow>
          (case GetObservedTimestamp txn (ReplicaNodeID (Header ba)) of
             None \<Rightarrow> None
           | Some obsTS \<Rightarrow> Some (h\<lparr>Timestamp := Forward (Timestamp h) obsTS\<rparr>)))"

text \<open>
  \<^verbatim>\<open>handleWriteIntentError(ctx, ba, pErr, t, cleanup)\<close>. \<open>fresh\<close> names the
  cleanup function the intent resolver would return, \<open>answer\<close> is the resolver's answer.
  \<^verbatim>\<open>index.Index\<close> dereferences the error's position and
  \<^verbatim>\<open>ba.Requests[index.Index]\<close> indexes the batch: both can panic.
\<close>

definition handleWriteIntentError ::
  "Replica \<Rightarrow> BatchRequest \<Rightarrow> Error \<Rightarrow> Intent list \<Rightarrow> CleanupFunc option \<Rightarrow> CleanupFunc
     \<Rightarrow> bool \<times> Error option \<Rightarrow> (CleanupFunc option \<times> Error option) Result \<times> Event list" where
  "handleWriteIntentError r ba pErr t cleanup fresh answer =
     (if DontPushOnWriteIntentError r then (Returns (cleanup, Some pErr), [])
      else
        let pushType = (if IsWrite ba then PUSH_ABORT else PUSH_TIMESTAMP) in
        case Index pErr of
          None \<Rightarrow> (Panics, [])
        | Some i \<Rightarrow>
            if i < 0 \<or> int (length (Requests ba)) \<le> i then (Panics, [])
            else
              let args = Requests ba ! nat i in
              (case pushHeader ba of
                 None \<Rightarrow> (Fatals ''missing observed timestamp'', [])
               | Some h \<Rightarrow>
                   let evs = (case cleanup of None \<Rightarrow> [] | Some c \<Rightarrow> [CleanupCalled c (Some t) None])
                             @ [ProcessWriteIntentErrorCalled pErr args h pushType];
                       cleanup' = (if fst answer then Some fresh else None)
                   in (case snd answer of
                         None \<Rightarrow> (Returns (cleanup', None), evs)
                       | Some pErr' \<Rightarrow>
                           if isAmbiguousResult (GetDetail (Some pErr'))
                           then (Returns (cleanup', None), evs)
                           else (Returns (cleanup', Some (pErr'\<lparr>Index := Index pErr\<rparr>)), evs))))"

text \<open>
  \<^verbatim>\<open>handleTransactionPushError(ctx, ba, pErr, t)\<close>, with \<open>t\<close> the pushee
  transaction of the error. The type assertion on \<^verbatim>\<open>ba.Requests[0]\<close> is made only
  under \<^verbatim>\<open>IsSinglePushTxnRequest\<close>, where it succeeds.
\<close>

definition handleTransactionPushError ::
  "Replica \<Rightarrow> BatchRequest \<Rightarrow> Error \<Rightarrow> Transaction \<Rightarrow> Error option \<times> Event list" where
  "handleTransactionPushError r ba pErr t =
     (let dontRetry = DontRetryPushTxnFailures r;
          dontRetry' =
            (if \<not> dontRetry \<and> IsSinglePushTxnRequest ba then
               (case singlePushTxnRequest (Requests ba) of
                  Some pushReq \<Rightarrow> ShouldPushImmediately r pushReq
                | None \<Rightarrow> dontRetry)
             else dontRetry)
      in if dontRetry' then (Some pErr, [])
         else (None, [EnqueueCalled t]))"

text \<open>\<^verbatim>\<open>handleIndeterminateCommitError(ctx, ba, pErr, t)\<close>; \<open>answer\<close> is the error of the recovery.\<close>

definition handleIndeterminateCommitError ::
  "Replica \<Rightarrow> BatchRequest \<Rightarrow> Error \<Rightarrow> Transaction \<Rightarrow> GoError option
     \<Rightarrow> Error option \<times> Event list" where
  "handleIndeterminateCommitError r ba pErr t answer =
     (if DontRecoverIndeterminateCommits r then (Some pErr, [])
      else
        (case answer of
           Some err \<Rightarrow>
             if isAmbiguousResultError err then (None, [ResolveIndeterminateCommitCalled t])
             else (map_option (\<lambda>newPErr. newPErr\<lparr>Index := Index pErr\<rparr>) (NewError (Some err)),
                   [ResolveIndeterminateCommitCalled t])
         | None \<Rightarrow> (None, [ResolveIndeterminateCommitCalled t])))"

text \<open>
  \<^verbatim>\<open>handleMergeInProgressError(ctx, ba, pErr, t)\<close>: \<open>ch\<close> says whether the merge
  completion channel is non-nil, \<open>sel\<close> which case of the \<^verbatim>\<open>select\<close> becomes ready.
\<close>

definition handleMergeInProgressError ::
  "bool \<Rightarrow> SelectCase option \<Rightarrow> Error option Result \<times> Event list" where
  "handleMergeInProgressError ch sel =
     (if \<not> ch then (Returns None, [])
      else
        (case sel of
           None \<Rightarrow> (Blocks, [MergeWaitEntered])
         | Some MergeComplete \<Rightarrow> (Returns None, [MergeWaitEntered])
         | Some (CtxDone err) \<Rightarrow>
             (Returns (NewError (Some (Wrap err ''aborted during merge''))), [MergeWaitEntered])
         | Some ShouldQuiesce \<Rightarrow>
             (Returns (NewError (Some (Detail NodeUnavailableError))), [MergeWaitEntered])))"

subsection \<open>The concurrency retry loop\<close>

text \<open>
  How the loop ends: a \<^verbatim>\<open>return\<close>, a fatal log, a panic (with the named results
  \<^verbatim>\<open>br\<close> and \<^verbatim>\<open>pErr\<close> as they stand when the deferred function runs), or a
  wait that never ends.
\<close>

datatype LoopEnd =
    Return "BatchResponse option" "Error option"
  | Fatal string
  | Panic "BatchResponse option" "Error option"
  | Block

text \<open>
  The \<^verbatim>\<open>switch\<close> on the detail of a non-nil error of the executor. The result is how
  the loop ends (\<open>None\<close>: it goes round again), the cleanup function, and the calls made.
\<close>

fun conflictSwitch ::
  "Replica \<Rightarrow> BatchRequest \<Rightarrow> nat \<Rightarrow> CleanupFunc option \<Rightarrow> Iteration \<Rightarrow> BatchResponse option
     \<Rightarrow> Error \<Rightarrow> GoError \<Rightarrow> LoopEnd option \<times> CleanupFunc option \<times> Event list" where
  "conflictSwitch r ba n cleanup it br pErr (Detail (WriteIntentError t)) =
     (case handleWriteIntentError r ba pErr t cleanup n (processWriteIntentError it) of
        (Returns (cleanup', None), evs) \<Rightarrow> (None, cleanup', evs)
      | (Returns (cleanup', Some pErr'), evs) \<Rightarrow> (Some (Return None (Some pErr')), cleanup', evs)
      | (Fatals msg, evs) \<Rightarrow> (Some (Fatal msg), cleanup, evs)
      | (Panics, evs) \<Rightarrow> (Some (Panic br (Some pErr)), cleanup, evs)
      | (Blocks, evs) \<Rightarrow> (Some Block, cleanup, evs))"
| "conflictSwitch r ba n cleanup it br pErr (Detail (TransactionPushError t)) =
     (case handleTransactionPushError r ba pErr t of
        (None, evs) \<Rightarrow> (None, cleanup, evs)
      | (Some pErr', evs) \<Rightarrow> (Some (Return None (Some pErr')), cleanup, evs))"
| "conflictSwitch r ba n cleanup it br pErr (Detail (IndeterminateCommitError t)) =
     (case handleIndeterminateCommitError r ba pErr t (resolveIndeterminateCommit it) of
        (None, evs) \<Rightarrow> (None, cleanup, evs)
      | (Some pErr', evs) \<Rightarrow> (Some (Return None (Some pErr')), cleanup, evs))"
| "conflictSwitch r ba n cleanup it br pErr (Detail MergeInProgressError) =
     (case handleMergeInProgressError (mergeCompleteCh it) (selected it) of
        (Returns None, evs) \<Rightarrow> (None, cleanup, evs)
      | (Returns (Some pErr'), evs) \<Rightarrow> (Some (Return None (Some pErr')), cleanup, evs)
      | (Fatals msg, evs) \<Rightarrow> (Some (Fatal msg), cleanup, evs)
      | (Panics, evs) \<Rightarrow> (Some (Panic br (Some pErr)), cleanup, evs)
      | (Blocks, evs) \<Rightarrow> (Some Block, cleanup, evs))"
| "conflictSwitch r ba n cleanup it br pErr other =
     (Some (Return None (Some pErr)), cleanup, [])"

text \<open>
  One pass through the body of the \<^verbatim>\<open>for\<close> loop, the \<open>n\<close>-th. \<^verbatim>\<open>GetDetail\<close>
  of the executor's error is nil exactly when the error is nil, which is the
  \<^verbatim>\<open>case nil\<close> of the switch.
\<close>

definition iteration ::
  "Replica \<Rightarrow> BatchRequest \<Rightarrow> BatchExecutionFn \<Rightarrow> nat \<Rightarrow> CleanupFunc option \<Rightarrow> Iteration
     \<Rightarrow> LoopEnd option \<times> CleanupFunc option \<times> Event list" where
  "iteration r ba fn n cleanup it =
     (case ctxErr it of
        Some err \<Rightarrow>
          (Some (Return None (NewError (Some (Wrap err ''aborted during Replica.Send'')))), cleanup, [])
      | None \<Rightarrow>
          (case waitForPushee it of (br, pErr) \<Rightarrow>
             if br \<noteq> None \<or> pErr \<noteq> None then
               (Some (Return br pErr), cleanup, [MaybeWaitForPusheeCalled])
             else
               (case beginCmdsErr it of
                  Some err \<Rightarrow>
                    (Some (Return None (NewError (Some err))), cleanup,
                     [MaybeWaitForPusheeCalled, BeginCmdsCalled])
                | None \<Rightarrow>
                    (case executed it of (br, pErr) \<Rightarrow>
                       (case pErr of
                          None \<Rightarrow>
                            (Some (Return br None), cleanup,
                             [MaybeWaitForPusheeCalled, BeginCmdsCalled, ExecuteCalled fn])
                        | Some e \<Rightarrow>
                            (case conflictSwitch r ba n cleanup it br e (GoErr e) of
                               (fin, cleanup', evs) \<Rightarrow>
                                 (fin, cleanup',
                                  [MaybeWaitForPusheeCalled, BeginCmdsCalled, ExecuteCalled fn] @ evs)))))))"

text \<open>
  The \<^verbatim>\<open>for\<close> loop, from its \<open>n\<close>-th pass on. Each pass reads one element of the
  script; when the script is used up and the loop has not ended, the result is \<open>None\<close>.
\<close>

fun retryLoop ::
  "Replica \<Rightarrow> BatchRequest \<Rightarrow> BatchExecutionFn \<Rightarrow> nat \<Rightarrow> CleanupFunc option \<Rightarrow> Iteration list
     \<Rightarrow> LoopEnd option \<times> CleanupFunc option \<times> Event list" where
  "retryLoop r ba fn n cleanup [] = (None, cleanup, [])"
| "retryLoop r ba fn n cleanup (it # its) =
     (case iteration r ba fn n cleanup it of
        (Some fin, cleanup', evs) \<Rightarrow> (Some fin, cleanup', evs)
      | (None, cleanup', evs) \<Rightarrow>
          (case retryLoop r ba fn (Suc n) cleanup' its of
             (fin, cleanup'', evs') \<Rightarrow> (fin, cleanup'', evs @ evs')))"

text \<open>
  The deferred function, for a non-nil \<^verbatim>\<open>cleanup\<close>: the argument it passes as the
  transaction of the live intent. \<^verbatim>\<open>br.Txn.Status\<close> dereferences the response and its
  transaction, read only when \<^verbatim>\<open>pErr == nil && ba.Txn != nil\<close>: \<open>Panics\<close> when one
  of them is nil.
\<close>

definition liveIntent ::
  "BatchRequest \<Rightarrow> BatchResponse option \<Rightarrow> Error option \<Rightarrow> TxnMeta option Result" where
  "liveIntent ba br pErr =
     (if pErr = None \<and> Txn (Header ba) \<noteq> None then
        (case br of
           None \<Rightarrow> Panics
         | Some b \<Rightarrow>
             (case br_Txn b of
                None \<Rightarrow> Panics
              | Some txn \<Rightarrow>
                  if \<not> IsFinalized (Status txn) \<and> \<not> IsReadOnly ba
                  then Returns (Some (TxnMeta txn))
                  else Returns None))
      else Returns None)"

definition deferredCleanup ::
  "BatchRequest \<Rightarrow> CleanupFunc option \<Rightarrow> BatchResponse option \<Rightarrow> Error option
     \<Rightarrow> Event list Result" where
  "deferredCleanup ba cleanup br pErr =
     (case cleanup of
        None \<Rightarrow> Returns []
      | Some c \<Rightarrow>
          (case liveIntent ba br pErr of
             Returns meta \<Rightarrow> Returns [CleanupCalled c None meta]
           | Fatals msg \<Rightarrow> Fatals msg
           | Panics \<Rightarrow> Panics
           | Blocks \<Rightarrow> Blocks))"

text \<open>
  How a call ends, seen by its caller: it returns the pair, the process ends on a fatal
  log, a panic unwinds, or the call never returns.
\<close>

datatype Outcome =
    Returned "BatchResponse option" "Error option"
  | Crashed string
  | Panicked
  | Hung

text \<open>
  \<^verbatim>\<open>executeBatchWithConcurrencyRetries(ctx, ba, fn)\<close>. Only whether
  \<^verbatim>\<open>collectSpans\<close> fails matters to the loop: its error is read from the script.
  The deferred function runs when the loop returns and when a panic unwinds; after a fatal
  log the process is gone, and a blocked loop never reaches it.
\<close>

definition executeBatchWithConcurrencyRetries ::
  "Replica \<Rightarrow> BatchRequest \<Rightarrow> BatchExecutionFn \<Rightarrow> Script \<Rightarrow> Outcome option \<times> Event list" where
  "executeBatchWithConcurrencyRetries r ba fn scr =
     (case collectSpansErr scr of
        Some err \<Rightarrow> (Some (Returned None (NewError (Some err))), [CollectSpansCalled])
      | None \<Rightarrow>
          (case retryLoop r ba fn 0 None (iterations scr) of
             (fin, cleanup, evs) \<Rightarrow>
               let evs0 = [CollectSpansCalled, RecordBatchForLoadBasedSplittingCalled] @ evs in
               (case fin of
                  None \<Rightarrow> (None, evs0)
                | Some (Return br pErr) \<Rightarrow>
                    (case deferredCleanup ba cleanup br pErr of
                       Returns devs \<Rightarrow> (Some (Returned br pErr), evs0 @ devs)
                     | Fatals msg \<Rightarrow> (Some (Crashed msg), evs0)
                     | Panics \<Rightarrow> (Some Panicked, evs0)
                     | Blocks \<Rightarrow> (Some Hung, evs0))
                | Some (Fatal msg) \<Rightarrow> (Some (Crashed msg), evs0)
                | Some (Panic br pErr) \<Rightarrow>
                    (case deferredCleanup ba cleanup br pErr of
                       Returns devs \<Rightarrow> (Some Panicked, evs0 @ devs)
                     | Fatals msg \<Rightarrow> (Some (Crashed msg), evs0)
                     | Panics \<Rightarrow> (Some Panicked, evs0)
                     | Blocks \<Rightarrow> (Some Hung, evs0))
                | Some Block \<Rightarrow> (Some Hung, evs0))))"

subsection \<open>The admin executor\<close>

definition emptyResponse :: Response where
  "emptyResponse = \<lparr>resp_Txn = None, RangeInfos = False, body = []\<rparr>"

text \<open>
  The \<^verbatim>\<open>switch\<close> on the kind of the admin request: the response and the error of the
  command, \<open>None\<close> in the \<^verbatim>\<open>default\<close> case. The commands' own results are read from
  the script (\<open>adminReply\<close>, and \<open>adminPErr\<close> or \<open>adminErr\<close> by the type the command
  returns).
\<close>

fun adminCommand :: "Request \<Rightarrow> Script \<Rightarrow> (Response \<times> Error option) option" where
  "adminCommand AdminSplitRequest scr = Some (adminReply scr, adminPErr scr)"
| "adminCommand AdminUnsplitRequest scr = Some (adminReply scr, adminPErr scr)"
| "adminCommand AdminMergeRequest scr = Some (adminReply scr, adminPErr scr)"
| "adminCommand AdminTransferLeaseRequest scr = Some (emptyResponse, NewError (adminErr scr))"
| "adminCommand AdminChangeReplicasRequest scr =
     (let pErr = NewError (adminErr scr) in
      if pErr \<noteq> None then Some (emptyResponse, pErr) else Some (adminReply scr, pErr))"
| "adminCommand AdminRelocateRangeRequest scr = Some (emptyResponse, NewError (adminErr scr))"
| "adminCommand CheckConsistencyRequest scr = Some (adminReply scr, adminPErr scr)"
| "adminCommand ImportRequest scr = Some (adminReply scr, NewError (adminErr scr))"
| "adminCommand AdminScatterRequest scr = Some (adminReply scr, NewError (adminErr scr))"
| "adminCommand args scr = None"

text \<open>\<^verbatim>\<open>executeAdminBatch(ctx, ba)\<close>.\<close>

definition executeAdminBatch ::
  "Replica \<Rightarrow> BatchRequest \<Rightarrow> Script \<Rightarrow> (BatchResponse option \<times> Error option) \<times> Event list" where
  "executeAdminBatch r ba scr =
     (if length (Requests ba) \<noteq> 1 then
        ((None, NewErrorf ''only single-element admin batches allowed''), [])
      else
        let args = Requests ba ! 0 in
        case leaseErr scr of
          Some pErr \<Rightarrow> ((None, Some pErr), [RedirectOnOrAcquireLeaseCalled])
        | None \<Rightarrow>
            (case canProceedErr scr of
               Some err \<Rightarrow>
                 ((None, NewError (Some err)),
                  [RedirectOnOrAcquireLeaseCalled, CheckExecutionCanProceedCalled])
             | None \<Rightarrow>
                 (case adminCommand args scr of
                    None \<Rightarrow>
                      ((None, NewErrorf ''unrecognized admin command''),
                       [RedirectOnOrAcquireLeaseCalled, CheckExecutionCanProceedCalled])
                  | Some (resp, pErr) \<Rightarrow>
                      (case pErr of
                         Some e \<Rightarrow>
                           ((None, Some e),
                            [RedirectOnOrAcquireLeaseCalled, CheckExecutionCanProceedCalled,
                             AdminCommandCalled args])
                       | None \<Rightarrow>
                           if ReturnRangeInfo (Header ba) then
                             ((Some \<lparr>br_Txn = resp_Txn resp, Responses = [resp\<lparr>RangeInfos := True\<rparr>]\<rparr>,
                               None),
                              [RedirectOnOrAcquireLeaseCalled, CheckExecutionCanProceedCalled,
                               AdminCommandCalled args, ReturnRangeInfoCalled])
                           else
                             ((Some \<lparr>br_Txn = resp_Txn resp, Responses = [resp]\<rparr>, None),
                              [RedirectOnOrAcquireLeaseCalled, CheckExecutionCanProceedCalled,
                               AdminCommandCalled args])))))"

subsection \<open>The dispatcher\<close>

text \<open>
  The branch of \<^verbatim>\<open>sendWithRangeID\<close> on the kind of the batch. \<^verbatim>\<open>isReadOnly\<close>
  and \<^verbatim>\<open>useRaft\<close> were computed before \<^verbatim>\<open>ba\<close> was replaced by the result of
  \<^verbatim>\<open>maybeStripInFlightWrites\<close>.
\<close>

definition dispatch ::
  "Replica \<Rightarrow> BatchRequest \<Rightarrow> bool \<Rightarrow> bool \<Rightarrow> Script \<Rightarrow> Outcome option \<times> Event list" where
  "dispatch r ba useRaft isReadOnly scr =
     (if useRaft then executeBatchWithConcurrencyRetries r ba executeWriteBatch scr
      else if isReadOnly then executeBatchWithConcurrencyRetries r ba executeReadOnlyBatch scr
      else if IsAdmin ba then
        (case executeAdminBatch r ba scr of ((br, pErr), evs) \<Rightarrow> (Some (Returned br pErr), evs))
      else if length (Requests ba) = 0 then (Some (Crashed ''empty batch''), [])
      else (Some (Crashed ''don't know how to handle command''), []))"

text \<open>
  What follows the branch: with an error the function logs it; with none, an installed
  \<^verbatim>\<open>TestingResponseFilter\<close> is called and its result becomes the error.
\<close>

definition afterDispatch ::
  "Replica \<Rightarrow> BatchRequest \<Rightarrow> Outcome option \<times> Event list \<Rightarrow> Outcome option \<times> Event list" where
  "afterDispatch r ba res =
     (case res of
        (Some (Returned br pErr), evs) \<Rightarrow>
          if pErr \<noteq> None then (Some (Returned br pErr), evs)
          else
            (case TestingResponseFilter r of
               Some filterFn \<Rightarrow> (Some (Returned br (filterFn ba br)), evs @ [ResponseFilterCalled ba br])
             | None \<Rightarrow> (Some (Returned br pErr), evs))
      | (other, evs) \<Rightarrow> (other, evs))"

text \<open>The \<^verbatim>\<open>TestingRequestFilter\<close> hook, when installed: its error and the call made.\<close>

definition requestFilter :: "Replica \<Rightarrow> BatchRequest \<Rightarrow> Error option \<times> Event list" where
  "requestFilter r ba =
     (case TestingRequestFilter r of
        None \<Rightarrow> (None, [])
      | Some filterFn \<Rightarrow> (filterFn ba, [RequestFilterCalled ba]))"

text \<open>\<^verbatim>\<open>sendWithRangeID(ctx, rangeID, ba)\<close>.\<close>

definition sendWithRangeID ::
  "Replica \<Rightarrow> BatchRequest \<Rightarrow> Script \<Rightarrow> Outcome option \<times> Event list" where
  "sendWithRangeID r ba scr =
     (let evs0 = (if hasLeaseholderStats r \<and> GatewayNodeID (Header ba) \<noteq> 0
                  then [LeaseholderStatsRecorded (GatewayNodeID (Header ba))] else [])
                 @ [MaybeInitializeRaftGroupCalled];
          isReadOnly = IsReadOnly ba;
          useRaft = (\<not> isReadOnly \<and> IsWrite ba)
      in
      case checkBatchRequest ba isReadOnly of
        Some err \<Rightarrow> (Some (Returned None (NewError (Some err))), evs0)
      | None \<Rightarrow>
          (case backpressureErr scr of
             Some err \<Rightarrow>
               (Some (Returned None (NewError (Some err))), evs0 @ [MaybeBackpressureBatchCalled])
           | None \<Rightarrow>
               (case maybeStripInFlightWrites r ba of
                  Inl err \<Rightarrow>
                    (Some (Returned None (NewError (Some err))), evs0 @ [MaybeBackpressureBatchCalled])
                | Inr ba' \<Rightarrow>
                    (case requestFilter r ba' of
                       (Some pErr, fevs) \<Rightarrow>
                         (Some (Returned None (Some pErr)),
                          evs0 @ [MaybeBackpressureBatchCalled] @ fevs)
                     | (None, fevs) \<Rightarrow>
                         (case afterDispatch r ba' (dispatch r ba' useRaft isReadOnly scr) of
                            (out, evs) \<Rightarrow>
                              (out, evs0 @ [MaybeBackpressureBatchCalled] @ fevs @ evs))))))"

subsection \<open>Notions used in the statements\<close>

text \<open>The four conflict kinds the retry loop resolves itself.\<close>

fun isConflictError :: "GoError \<Rightarrow> bool" where
  "isConflictError (Detail (WriteIntentError t)) = True"
| "isConflictError (Detail (TransactionPushError t)) = True"
| "isConflictError (Detail (IndeterminateCommitError t)) = True"
| "isConflictError (Detail MergeInProgressError) = True"
| "isConflictError other = False"

text \<open>
  What the \<open>n\<close>-th pass does with the residual error \<open>res\<close> of a handler that made the
  calls \<open>evs\<close> and left the cleanup function \<open>cleanup'\<close>: with none it goes round
  again, on the rest of the script; otherwise it returns that error.
\<close>

definition retryOrReturn ::
  "Replica \<Rightarrow> BatchRequest \<Rightarrow> BatchExecutionFn \<Rightarrow> nat \<Rightarrow> Iteration list \<Rightarrow> CleanupFunc option
     \<Rightarrow> Error option \<Rightarrow> Event list \<Rightarrow> LoopEnd option \<times> CleanupFunc option \<times> Event list" where
  "retryOrReturn r ba fn n its cleanup' res evs =
     (case res of
        None \<Rightarrow>
          (case retryLoop r ba fn (Suc n) cleanup' its of
             (fin, cleanup'', evs') \<Rightarrow>
               (fin, cleanup'',
                [MaybeWaitForPusheeCalled, BeginCmdsCalled, ExecuteCalled fn] @ evs @ evs'))
      | Some pErr' \<Rightarrow>
          (Some (Return None (Some pErr')), cleanup',
           [MaybeWaitForPusheeCalled, BeginCmdsCalled, ExecuteCalled fn] @ evs))"

text \<open>The number of calls of the cleanup function \<open>c\<close> in a trace.\<close>

fun isCleanupOf :: "CleanupFunc \<Rightarrow> Event \<Rightarrow> bool" where
  "isCleanupOf c (CleanupCalled c' wiErr meta) = (c' = c)"
| "isCleanupOf c ev = False"

definition cleanupCalls :: "CleanupFunc \<Rightarrow> Event list \<Rightarrow> nat" where
  "cleanupCalls c evs = length (filter (isCleanupOf c) evs)"

text \<open>
  The rule of the live intent, in the spec's words: the call succeeded, the batch carried
  a transaction, the transaction of the response is not finalized, and the batch was not
  read-only. The response transaction's metadata is what the cleanup function is then given.
\<close>

definition wroteIntent :: "BatchRequest \<Rightarrow> BatchResponse option \<Rightarrow> Error option \<Rightarrow> bool" where
  "wroteIntent ba br pErr =
     (pErr = None \<and> Txn (Header ba) \<noteq> None
      \<and> (case br of
            None \<Rightarrow> False
          | Some b \<Rightarrow> (case br_Txn b of None \<Rightarrow> False | Some txn \<Rightarrow> \<not> IsFinalized (Status txn)))
      \<and> \<not> IsReadOnly ba)"

definition responseTxnMeta :: "BatchResponse option \<Rightarrow> TxnMeta option" where
  "responseTxnMeta br = (case br of None \<Rightarrow> None | Some b \<Rightarrow> map_option TxnMeta (br_Txn b))"

text \<open>
  What the deferred function needs of the results it reads: when a cleanup function is
  held and the call succeeded for a batch that carries a transaction, the response and
  its transaction are not nil.
\<close>

definition responseHasTxn ::
  "BatchRequest \<Rightarrow> CleanupFunc option \<Rightarrow> BatchResponse option \<Rightarrow> Error option \<Rightarrow> bool" where
  "responseHasTxn ba cleanup br pErr =
     (cleanup = None \<or> pErr \<noteq> None \<or> Txn (Header ba) = None \<or> responseTxnMeta br \<noteq> None)"

text \<open>The number of calls of the response filter hook in a trace.\<close>

fun isResponseFilterCall :: "Event \<Rightarrow> bool" where
  "isResponseFilterCall (ResponseFilterCalled ba br) = True"
| "isResponseFilterCall ev = False"

definition responseFilterCalls :: "Event list \<Rightarrow> nat" where
  "responseFilterCalls evs = length (filter isResponseFilterCall evs)"

text \<open>
  The calls \<^verbatim>\<open>sendWithRangeID\<close> makes before it branches, when nothing stops it
  earlier.
\<close>

definition beforeDispatch :: "Replica \<Rightarrow> BatchRequest \<Rightarrow> Event list" where
  "beforeDispatch r ba =
     (if hasLeaseholderStats r \<and> GatewayNodeID (Header ba) \<noteq> 0
      then [LeaseholderStatsRecorded (GatewayNodeID (Header ba))] else [])
     @ [MaybeInitializeRaftGroupCalled, MaybeBackpressureBatchCalled]"

subsection \<open>Concrete inputs\<close>

text \<open>
  A transactional single-put batch on node 1, a replica with no knob set, and a run in
  which the first attempt meets a write intent that the intent resolver resolves and the
  second attempt succeeds.
\<close>

definition exTxn :: Transaction where
  "exTxn = \<lparr>TxnMeta = \<lparr>ID = 7, Priority = 1\<rparr>, Status = PENDING,
            ObservedTimestamps = [(1, \<lparr>WallTime = 12, Logical = 0\<rparr>)]\<rparr>"

definition exHeader :: Header where
  "exHeader = \<lparr>Timestamp = \<lparr>WallTime = 10, Logical = 0\<rparr>, ReplicaNodeID = 1, Txn = Some exTxn,
               ReadConsistency = CONSISTENT, GatewayNodeID = 1, ReturnRangeInfo = False\<rparr>"

definition exBatch :: BatchRequest where
  "exBatch = \<lparr>Header = exHeader, Requests = [PutRequest]\<rparr>"

definition exReplica :: Replica where
  "exReplica = \<lparr>hasLeaseholderStats = True, DontPushOnWriteIntentError = False,
                DontRetryPushTxnFailures = False, DontRecoverIndeterminateCommits = False,
                TestingRequestFilter = None, TestingResponseFilter = None,
                ShouldPushImmediately = Force, maybeStripInFlightWrites = Inr\<rparr>"

definition exIntentErr :: Error where
  "exIntentErr = \<lparr>GoErr = Detail (WriteIntentError [''k'']), Index = Some 0\<rparr>"

definition exResponse :: BatchResponse where
  "exResponse = \<lparr>br_Txn = Some exTxn,
                 Responses = [\<lparr>resp_Txn = None, RangeInfos = False, body = ''put''\<rparr>]\<rparr>"

definition exConflictPass :: Iteration where
  "exConflictPass = \<lparr>ctxErr = None, waitForPushee = (None, None), beginCmdsErr = None,
                     executed = (None, Some exIntentErr), processWriteIntentError = (True, None),
                     resolveIndeterminateCommit = None, mergeCompleteCh = False, selected = None\<rparr>"

definition exSuccessPass :: Iteration where
  "exSuccessPass = \<lparr>ctxErr = None, waitForPushee = (None, None), beginCmdsErr = None,
                    executed = (Some exResponse, None), processWriteIntentError = (False, None),
                    resolveIndeterminateCommit = None, mergeCompleteCh = False, selected = None\<rparr>"

definition exScript :: Script where
  "exScript = \<lparr>backpressureErr = None, collectSpansErr = None,
               iterations = [exConflictPass, exSuccessPass], leaseErr = None,
               canProceedErr = None, adminReply = emptyResponse, adminPErr = None,
               adminErr = None\<rparr>"

text \<open>The header the push of the example is made with: the timestamp forwarded to 12.\<close>

definition exPushHeader :: Header where
  "exPushHeader = exHeader\<lparr>Timestamp := \<lparr>WallTime = 12, Logical = 0\<rparr>\<rparr>"

text \<open>Errors a resolution can answer with: an ambiguous result, and another failure.\<close>

definition exAmbiguousErr :: Error where
  "exAmbiguousErr = \<lparr>GoErr = Detail (AmbiguousResultError ''push''), Index = None\<rparr>"

definition exOtherErr :: Error where
  "exOtherErr = \<lparr>GoErr = Detail (OtherDetail ''RangeNotFoundError''), Index = None\<rparr>"

text \<open>
  A replica whose response filter turns every result into success, and a run whose only
  attempt fails with an error that is no conflict.
\<close>

definition exFilterReplica :: Replica where
  "exFilterReplica = exReplica\<lparr>TestingResponseFilter := Some (\<lambda>ba br. None)\<rparr>"

definition exFailingPass :: Iteration where
  "exFailingPass = exSuccessPass\<lparr>executed := (None, Some exOtherErr)\<rparr>"

definition exFailingScript :: Script where
  "exFailingScript = exScript\<lparr>iterations := [exFailingPass]\<rparr>"

text \<open>
  A batch whose transaction has recorded no observed timestamp for node 1, and a replica
  with the knob \<^verbatim>\<open>DontPushOnWriteIntentError\<close> set.
\<close>

definition exUnobservedTxn :: Transaction where
  "exUnobservedTxn = exTxn\<lparr>ObservedTimestamps := []\<rparr>"



text \<open>A forced push of transaction 7, alone in its batch, and the error of its failure.\<close>

definition exPushReq :: PushTxnRequest where
  "exPushReq = \<lparr>PusherTxn = exTxn, PusheeTxn = \<lparr>ID = 8, Priority = 1\<rparr>, PushType = PUSH_ABORT,
                Force = True\<rparr>"

definition exPushBatch :: BatchRequest where
  "exPushBatch = \<lparr>Header = exHeader\<lparr>Txn := None\<rparr>, Requests = [PushTxnRequest exPushReq]\<rparr>"

definition exPushErr :: Error where
  "exPushErr = \<lparr>GoErr = Detail (TransactionPushError exUnobservedTxn), Index = Some 0\<rparr>"

text \<open>An admin batch of two operations.\<close>

definition exAdminBatch :: BatchRequest where
  "exAdminBatch = \<lparr>Header = exHeader\<lparr>Txn := None\<rparr>,
                   Requests = [AdminSplitRequest, AdminMergeRequest]\<rparr>"

text \<open>The error of a commit whose outcome is not known, at request 0.\<close>

definition exCommitErr :: Error where
  "exCommitErr = \<lparr>GoErr = Detail (IndeterminateCommitError exTxn), Index = Some 0\<rparr>"

text \<open>A run whose only attempt succeeds.\<close>

definition exSuccessScript :: Script where
  "exSuccessScript = exScript\<lparr>iterations := [exSuccessPass]\<rparr>"

text \<open>
  A run like the example's, but whose second attempt succeeds with a response that
  carries no transaction.
\<close>

definition exNoTxnResponse :: BatchResponse where
  "exNoTxnResponse = exResponse\<lparr>br_Txn := None\<rparr>"

definition exNoTxnPass :: Iteration where
  "exNoTxnPass = exSuccessPass\<lparr>executed := (Some exNoTxnResponse, None)\<rparr>"

definition exNoTxnScript :: Script where
  "exNoTxnScript = exScript\<lparr>iterations := [exConflictPass, exNoTxnPass]\<rparr>"

section \<open>Properties\<close>

subsection \<open>Batch validation\<close>

text \<open>
  C9: validation returns an error exactly when the batch's timestamp is unassigned
  (zero), or the batch is read-only with a read consistency other than consistent inside a
  transaction, or the batch is not read-only and its read consistency is not consistent.
  In every other case it returns nil. The result is always a value: there is no panic.
\<close>

theorem checkBatchRequest_error_iff:
  "(checkBatchRequest ba isReadOnly \<noteq> None) =
     (Timestamp (Header ba) = zeroTimestamp
      \<or> (isReadOnly \<and> ReadConsistency (Header ba) \<noteq> CONSISTENT \<and> Txn (Header ba) \<noteq> None)
      \<or> (\<not> isReadOnly \<and> ReadConsistency (Header ba) \<noteq> CONSISTENT))"
  by (simp add: checkBatchRequest_def Let_def)

text \<open>The example batch is valid; an inconsistent write is not.\<close>

theorem checkBatchRequest_error_iff_witness:
  "checkBatchRequest exBatch False = None
   \<and> checkBatchRequest (exBatch\<lparr>Header := exHeader\<lparr>ReadConsistency := INCONSISTENT\<rparr>\<rparr>) False
       = Some (ErrorString ''INCONSISTENT mode is only available to reads'')"
  using checkBatchRequest_error_iff [of exBatch False]
  by (simp add: checkBatchRequest_def exBatch_def exHeader_def zeroTimestamp_def)

subsection \<open>The switch of the retry loop\<close>

lemma GetDetail_None_iff: "(GetDetail pErr = None) = (pErr = None)"
  by (simp add: GetDetail_def)

lemma conflictSwitch_other:
  "\<not> isConflictError d \<Longrightarrow>
     conflictSwitch r ba n cleanup it br e d = (Some (Return None (Some e)), cleanup, [])"
  by (induction d rule: isConflictError.induct) simp_all

text \<open>
  C1: take a pass of the loop that reaches the executor (the context is live, the wait
  queue yields nothing, the latches are acquired), and let the executor return
  \<open>(br, pErr)\<close>. With a nil error the loop returns \<open>br\<close> as success. With a write-intent,
  transaction-push, indeterminate-commit or merge-in-progress error the handler of that
  kind is run, and when it returns, the loop goes round again if the handler's residual
  error is nil and returns that error otherwise. With an error of any other kind the
  loop returns it at once: the rest of the script is not read.
\<close>

theorem retryLoop_dispatch:
  assumes "ctxErr it = None" and "waitForPushee it = (None, None)"
    and "beginCmdsErr it = None" and "executed it = (br, pErr)"
  shows "(GetDetail pErr = None \<longrightarrow>
            retryLoop r ba fn n cleanup (it # its) =
              (Some (Return br None), cleanup,
               [MaybeWaitForPusheeCalled, BeginCmdsCalled, ExecuteCalled fn]))
       \<and> (\<forall>d. GetDetail pErr = Some d \<and> \<not> isConflictError d \<longrightarrow>
            retryLoop r ba fn n cleanup (it # its) =
              (Some (Return None pErr), cleanup,
               [MaybeWaitForPusheeCalled, BeginCmdsCalled, ExecuteCalled fn]))
       \<and> (\<forall>e t cleanup' res evs.
            pErr = Some e \<and> GetDetail pErr = Some (Detail (WriteIntentError t))
            \<and> handleWriteIntentError r ba e t cleanup n (processWriteIntentError it)
                = (Returns (cleanup', res), evs) \<longrightarrow>
            retryLoop r ba fn n cleanup (it # its) = retryOrReturn r ba fn n its cleanup' res evs)
       \<and> (\<forall>e t res evs.
            pErr = Some e \<and> GetDetail pErr = Some (Detail (TransactionPushError t))
            \<and> handleTransactionPushError r ba e t = (res, evs) \<longrightarrow>
            retryLoop r ba fn n cleanup (it # its) = retryOrReturn r ba fn n its cleanup res evs)
       \<and> (\<forall>e t res evs.
            pErr = Some e \<and> GetDetail pErr = Some (Detail (IndeterminateCommitError t))
            \<and> handleIndeterminateCommitError r ba e t (resolveIndeterminateCommit it)
                = (res, evs) \<longrightarrow>
            retryLoop r ba fn n cleanup (it # its) = retryOrReturn r ba fn n its cleanup res evs)
       \<and> (\<forall>e res evs.
            pErr = Some e \<and> GetDetail pErr = Some (Detail MergeInProgressError)
            \<and> handleMergeInProgressError (mergeCompleteCh it) (selected it)
                = (Returns res, evs) \<longrightarrow>
            retryLoop r ba fn n cleanup (it # its) = retryOrReturn r ba fn n its cleanup res evs)"
proof (intro conjI allI impI)
  assume "GetDetail pErr = None"
  then show "retryLoop r ba fn n cleanup (it # its) =
      (Some (Return br None), cleanup,
       [MaybeWaitForPusheeCalled, BeginCmdsCalled, ExecuteCalled fn])"
    using assms by (simp add: iteration_def GetDetail_None_iff)
next
  fix d
  assume "GetDetail pErr = Some d \<and> \<not> isConflictError d"
  then show "retryLoop r ba fn n cleanup (it # its) =
      (Some (Return None pErr), cleanup,
       [MaybeWaitForPusheeCalled, BeginCmdsCalled, ExecuteCalled fn])"
    using assms by (auto simp add: iteration_def GetDetail_def conflictSwitch_other)
next
  fix e t cleanup' res evs
  assume "pErr = Some e \<and> GetDetail pErr = Some (Detail (WriteIntentError t))
            \<and> handleWriteIntentError r ba e t cleanup n (processWriteIntentError it)
                = (Returns (cleanup', res), evs)"
  then show "retryLoop r ba fn n cleanup (it # its) = retryOrReturn r ba fn n its cleanup' res evs"
    using assms
    by (auto simp add: iteration_def GetDetail_def retryOrReturn_def
        split: option.splits prod.splits)
next
  fix e t res evs
  assume "pErr = Some e \<and> GetDetail pErr = Some (Detail (TransactionPushError t))
            \<and> handleTransactionPushError r ba e t = (res, evs)"
  then show "retryLoop r ba fn n cleanup (it # its) = retryOrReturn r ba fn n its cleanup res evs"
    using assms
    by (auto simp add: iteration_def GetDetail_def retryOrReturn_def
        split: option.splits prod.splits)
next
  fix e t res evs
  assume "pErr = Some e \<and> GetDetail pErr = Some (Detail (IndeterminateCommitError t))
            \<and> handleIndeterminateCommitError r ba e t (resolveIndeterminateCommit it)
                = (res, evs)"
  then show "retryLoop r ba fn n cleanup (it # its) = retryOrReturn r ba fn n its cleanup res evs"
    using assms
    by (auto simp add: iteration_def GetDetail_def retryOrReturn_def
        split: option.splits prod.splits)
next
  fix e res evs
  assume "pErr = Some e \<and> GetDetail pErr = Some (Detail MergeInProgressError)
            \<and> handleMergeInProgressError (mergeCompleteCh it) (selected it)
                = (Returns res, evs)"
  then show "retryLoop r ba fn n cleanup (it # its) = retryOrReturn r ba fn n its cleanup res evs"
    using assms
    by (auto simp add: iteration_def GetDetail_def retryOrReturn_def
        split: option.splits prod.splits)
qed

lemma exPushHeader: "pushHeader exBatch = Some exPushHeader"
  by (simp add: pushHeader_def exBatch_def exHeader_def exTxn_def exPushHeader_def
      GetObservedTimestamp_def Forward_def Less_def)

lemma exBatch_facts:
  "IsWrite exBatch" "\<not> IsReadOnly exBatch" "Requests exBatch = [PutRequest]"
  "Txn (Header exBatch) = Some exTxn"
  by (simp_all add: IsWrite_def IsReadOnly_def exBatch_def exHeader_def)

lemma exConflictPass_handler:
  "handleWriteIntentError exReplica exBatch exIntentErr [''k''] None 0
     (processWriteIntentError exConflictPass)
   = (Returns (Some 0, None),
      [ProcessWriteIntentErrorCalled exIntentErr PutRequest exPushHeader PUSH_ABORT])"
  by (simp add: handleWriteIntentError_def exPushHeader exBatch_facts exReplica_def
      exIntentErr_def exConflictPass_def)

lemma exSuccessPass_loop:
  "retryLoop r exBatch fn n cleanup [exSuccessPass]
   = (Some (Return (Some exResponse) None), cleanup,
      [MaybeWaitForPusheeCalled, BeginCmdsCalled, ExecuteCalled fn])"
  by (simp add: iteration_def exSuccessPass_def)

text \<open>
  The example run: the first pass meets a write intent, the handler resolves it, the
  second pass succeeds.
\<close>

theorem retryLoop_dispatch_witness:
  "ctxErr exConflictPass = None \<and> waitForPushee exConflictPass = (None, None)
   \<and> beginCmdsErr exConflictPass = None \<and> executed exConflictPass = (None, Some exIntentErr)
   \<and> retryLoop exReplica exBatch executeWriteBatch 0 None [exConflictPass, exSuccessPass]
       = (Some (Return (Some exResponse) None), Some 0,
          [MaybeWaitForPusheeCalled, BeginCmdsCalled, ExecuteCalled executeWriteBatch,
           ProcessWriteIntentErrorCalled exIntentErr PutRequest exPushHeader PUSH_ABORT,
           MaybeWaitForPusheeCalled, BeginCmdsCalled, ExecuteCalled executeWriteBatch])"
proof -
  have h: "ctxErr exConflictPass = None" "waitForPushee exConflictPass = (None, None)"
    "beginCmdsErr exConflictPass = None" "executed exConflictPass = (None, Some exIntentErr)"
    by (simp_all add: exConflictPass_def)
  have d: "GetDetail (Some exIntentErr) = Some (Detail (WriteIntentError [''k'']))"
    by (simp add: GetDetail_def exIntentErr_def)
  from retryLoop_dispatch [OF h, of exReplica exBatch executeWriteBatch 0 None "[exSuccessPass]"]
    d exConflictPass_handler
  have "retryLoop exReplica exBatch executeWriteBatch 0 None [exConflictPass, exSuccessPass]
        = retryOrReturn exReplica exBatch executeWriteBatch 0 [exSuccessPass] (Some 0) None
            [ProcessWriteIntentErrorCalled exIntentErr PutRequest exPushHeader PUSH_ABORT]"
    by blast
  then show ?thesis
    using h by (simp add: retryOrReturn_def exSuccessPass_loop del: retryLoop.simps)
qed

subsection \<open>The cleanup function\<close>

lemma cleanupCalls_Nil: "cleanupCalls c [] = 0"
  by (simp add: cleanupCalls_def)

lemma cleanupCalls_Cons:
  "cleanupCalls c (ev # evs) =
     (if isCleanupOf c ev then Suc (cleanupCalls c evs) else cleanupCalls c evs)"
  by (simp add: cleanupCalls_def)

lemma cleanupCalls_append: "cleanupCalls c (evs @ evs') = cleanupCalls c evs + cleanupCalls c evs'"
  by (simp add: cleanupCalls_def)

lemmas cleanupCalls_simps = cleanupCalls_Nil cleanupCalls_Cons cleanupCalls_append

text \<open>
  A handler either leaves the cleanup function alone and calls none, or calls the old one
  once and leaves the one obtained in this pass (or nil).
\<close>

lemma handleWriteIntentError_cleanup:
  assumes "handleWriteIntentError r ba pErr t cleanup n answer = (res, evs)"
  shows "(evs = [] \<and> (\<forall>c' e. res = Returns (c', e) \<longrightarrow> c' = cleanup))
       \<or> ((\<exists>e. res = Returns (None, e) \<or> res = Returns (Some n, e))
           \<and> (\<forall>c. cleanupCalls c evs = (if cleanup = Some c then 1 else 0)))"
  using assms
  by (auto simp add: handleWriteIntentError_def Let_def cleanupCalls_simps
      split: if_splits option.splits)

lemma conflictSwitch_cleanup:
  assumes "conflictSwitch r ba n cleanup it br e d = (fin, cleanup', evs)"
  shows "(cleanup' = cleanup \<and> (\<forall>c. cleanupCalls c evs = 0))
       \<or> ((cleanup' = None \<or> cleanup' = Some n)
           \<and> (\<forall>c. cleanupCalls c evs = (if cleanup = Some c then 1 else 0)))"
proof (cases d)
  case (Detail x)
  show ?thesis
  proof (cases x)
    case (WriteIntentError t)
    obtain res hevs where
      h: "handleWriteIntentError r ba e t cleanup n (processWriteIntentError it) = (res, hevs)"
      by (cases "handleWriteIntentError r ba e t cleanup n (processWriteIntentError it)")
    from handleWriteIntentError_cleanup [OF h] assms Detail WriteIntentError h show ?thesis
      by (auto simp add: cleanupCalls_simps split: Result.splits option.splits)
  next
    case (TransactionPushError t)
    with assms Detail show ?thesis
      by (auto simp add: handleTransactionPushError_def Let_def cleanupCalls_simps
          split: if_splits option.splits)
  next
    case (IndeterminateCommitError t)
    with assms Detail show ?thesis
      by (auto simp add: handleIndeterminateCommitError_def NewError_def cleanupCalls_simps
          split: if_splits option.splits)
  next
    case MergeInProgressError
    with assms Detail show ?thesis
      by (auto simp add: handleMergeInProgressError_def NewError_def cleanupCalls_simps
          split: if_splits option.splits SelectCase.splits)
  qed (use assms Detail in \<open>auto simp add: cleanupCalls_simps\<close>)
qed (use assms in \<open>auto simp add: cleanupCalls_simps\<close>)

lemma iteration_cleanup:
  assumes "iteration r ba fn n cleanup it = (fin, cleanup', evs)"
  shows "(cleanup' = cleanup \<and> (\<forall>c. cleanupCalls c evs = 0))
       \<or> ((cleanup' = None \<or> cleanup' = Some n)
           \<and> (\<forall>c. cleanupCalls c evs = (if cleanup = Some c then 1 else 0)))"
  using assms
  apply (simp add: iteration_def cleanupCalls_simps split: option.splits prod.splits if_splits)
  apply (auto simp add: cleanupCalls_simps dest!: conflictSwitch_cleanup)
  done

text \<open>
  The cleanup function the loop ends with has not been called by the loop, and it is
  either the one the loop started with or one obtained in a pass of the loop.
\<close>

lemma retryLoop_cleanup:
  assumes "retryLoop r ba fn n cleanup its = (fin, Some c, evs)"
    and "\<forall>c0. cleanup = Some c0 \<longrightarrow> c0 < n"
  shows "cleanupCalls c evs = 0 \<and> (c < n \<longrightarrow> cleanup = Some c)"
  using assms
proof (induction its arbitrary: n cleanup fin evs)
  case Nil
  then show ?case by (simp add: cleanupCalls_simps)
next
  case (Cons it its)
  obtain f1 c1 e1 where it: "iteration r ba fn n cleanup it = (f1, c1, e1)"
    by (cases "iteration r ba fn n cleanup it")
  note ic = iteration_cleanup [OF it]
  show ?case
  proof (cases f1)
    case (Some a)
    with Cons.prems it have "c1 = Some c" "evs = e1" by auto
    with ic Cons.prems(2) show ?thesis by auto
  next
    case None
    obtain f2 c2 e2 where rl: "retryLoop r ba fn (Suc n) c1 its = (f2, c2, e2)"
      by (cases "retryLoop r ba fn (Suc n) c1 its")
    with None it Cons.prems(1) have eq: "c2 = Some c" "evs = e1 @ e2" by auto
    have "\<forall>c0. c1 = Some c0 \<longrightarrow> c0 < Suc n"
      using ic Cons.prems(2) by auto
    from Cons.IH [OF rl [unfolded eq(1)] this]
    have ih: "cleanupCalls c e2 = 0" "c < Suc n \<longrightarrow> c1 = Some c" by auto
    show ?thesis
      using ic ih eq Cons.prems(2) by (auto simp add: cleanupCalls_simps split: if_splits)
  qed
qed

lemma liveIntent_responseHasTxn:
  "responseHasTxn ba (Some c) br pErr \<Longrightarrow>
     liveIntent ba br pErr
       = Returns (if wroteIntent ba br pErr then responseTxnMeta br else None)"
  by (auto simp add: responseHasTxn_def liveIntent_def wroteIntent_def responseTxnMeta_def
      split: option.splits)

lemma exConflictPass_iteration:
  "iteration exReplica exBatch executeWriteBatch 0 None exConflictPass
   = (None, Some 0,
      [MaybeWaitForPusheeCalled, BeginCmdsCalled, ExecuteCalled executeWriteBatch,
       ProcessWriteIntentErrorCalled exIntentErr PutRequest exPushHeader PUSH_ABORT])"
  using exConflictPass_handler
  by (simp add: iteration_def exConflictPass_def exIntentErr_def)

lemma exScript_loop:
  "retryLoop exReplica exBatch executeWriteBatch 0 None (iterations exScript)
   = (Some (Return (Some exResponse) None), Some 0,
      [MaybeWaitForPusheeCalled, BeginCmdsCalled, ExecuteCalled executeWriteBatch,
       ProcessWriteIntentErrorCalled exIntentErr PutRequest exPushHeader PUSH_ABORT,
       MaybeWaitForPusheeCalled, BeginCmdsCalled, ExecuteCalled executeWriteBatch])"
proof -
  have "retryLoop exReplica exBatch executeWriteBatch 0 None [exConflictPass, exSuccessPass]
      = (Some (Return (Some exResponse) None), Some 0,
         [MaybeWaitForPusheeCalled, BeginCmdsCalled, ExecuteCalled executeWriteBatch,
          ProcessWriteIntentErrorCalled exIntentErr PutRequest exPushHeader PUSH_ABORT,
          MaybeWaitForPusheeCalled, BeginCmdsCalled, ExecuteCalled executeWriteBatch])"
    by (subst retryLoop.simps(2))
      (simp add: exConflictPass_iteration exSuccessPass_loop del: retryLoop.simps)
  then show ?thesis
    by (simp add: exScript_def del: retryLoop.simps)
qed

lemma exNoTxnPass_loop:
  "retryLoop r exBatch fn n cleanup [exNoTxnPass]
   = (Some (Return (Some exNoTxnResponse) None), cleanup,
      [MaybeWaitForPusheeCalled, BeginCmdsCalled, ExecuteCalled fn])"
  by (simp add: iteration_def exNoTxnPass_def exSuccessPass_def)

lemma exNoTxnScript_loop:
  "retryLoop exReplica exBatch executeWriteBatch 0 None (iterations exNoTxnScript)
   = (Some (Return (Some exNoTxnResponse) None), Some 0,
      [MaybeWaitForPusheeCalled, BeginCmdsCalled, ExecuteCalled executeWriteBatch,
       ProcessWriteIntentErrorCalled exIntentErr PutRequest exPushHeader PUSH_ABORT,
       MaybeWaitForPusheeCalled, BeginCmdsCalled, ExecuteCalled executeWriteBatch])"
proof -
  have "retryLoop exReplica exBatch executeWriteBatch 0 None [exConflictPass, exNoTxnPass]
      = (Some (Return (Some exNoTxnResponse) None), Some 0,
         [MaybeWaitForPusheeCalled, BeginCmdsCalled, ExecuteCalled executeWriteBatch,
          ProcessWriteIntentErrorCalled exIntentErr PutRequest exPushHeader PUSH_ABORT,
          MaybeWaitForPusheeCalled, BeginCmdsCalled, ExecuteCalled executeWriteBatch])"
    by (subst retryLoop.simps(2))
      (simp add: exConflictPass_iteration exNoTxnPass_loop del: retryLoop.simps)
  then show ?thesis
    by (simp add: exNoTxnScript_def exScript_def del: retryLoop.simps)
qed

text \<open>
  As C2 states it, every exit of the loop, success included, finalizes the cleanup
  function it holds exactly once. In this run the first attempt of the transactional put
  batch meets a write intent, which leaves the cleanup function 0, and the second attempt
  succeeds with a response that carries no transaction. The loop exits with success
  holding the function; the deferred function reads \<^verbatim>\<open>br.Txn.Status\<close> on the nil
  transaction and panics before it calls anything: the function is called zero times.
\<close>

theorem cleanup_not_finalized_counterexample:
  "collectSpansErr exNoTxnScript = None
   \<and> Txn (Header exBatch) = Some exTxn
   \<and> retryLoop exReplica exBatch executeWriteBatch 0 None (iterations exNoTxnScript)
       = (Some (Return (Some exNoTxnResponse) None), Some 0,
          [MaybeWaitForPusheeCalled, BeginCmdsCalled, ExecuteCalled executeWriteBatch,
           ProcessWriteIntentErrorCalled exIntentErr PutRequest exPushHeader PUSH_ABORT,
           MaybeWaitForPusheeCalled, BeginCmdsCalled, ExecuteCalled executeWriteBatch])
   \<and> executeBatchWithConcurrencyRetries exReplica exBatch executeWriteBatch exNoTxnScript
       = (Some Panicked,
          [CollectSpansCalled, RecordBatchForLoadBasedSplittingCalled,
           MaybeWaitForPusheeCalled, BeginCmdsCalled, ExecuteCalled executeWriteBatch,
           ProcessWriteIntentErrorCalled exIntentErr PutRequest exPushHeader PUSH_ABORT,
           MaybeWaitForPusheeCalled, BeginCmdsCalled, ExecuteCalled executeWriteBatch])
   \<and> cleanupCalls 0
        [CollectSpansCalled, RecordBatchForLoadBasedSplittingCalled,
         MaybeWaitForPusheeCalled, BeginCmdsCalled, ExecuteCalled executeWriteBatch,
         ProcessWriteIntentErrorCalled exIntentErr PutRequest exPushHeader PUSH_ABORT,
         MaybeWaitForPusheeCalled, BeginCmdsCalled, ExecuteCalled executeWriteBatch] = 0"
proof -
  have h1: "collectSpansErr exNoTxnScript = None"
    by (simp add: exNoTxnScript_def exScript_def)
  have l: "liveIntent exBatch (Some exNoTxnResponse) None = Panics"
    by (simp add: liveIntent_def exBatch_facts exNoTxnResponse_def)
  have e: "executeBatchWithConcurrencyRetries exReplica exBatch executeWriteBatch exNoTxnScript
       = (Some Panicked,
          [CollectSpansCalled, RecordBatchForLoadBasedSplittingCalled,
           MaybeWaitForPusheeCalled, BeginCmdsCalled, ExecuteCalled executeWriteBatch,
           ProcessWriteIntentErrorCalled exIntentErr PutRequest exPushHeader PUSH_ABORT,
           MaybeWaitForPusheeCalled, BeginCmdsCalled, ExecuteCalled executeWriteBatch])"
    by (simp add: executeBatchWithConcurrencyRetries_def h1 exNoTxnScript_loop
        deferredCleanup_def l)
  show ?thesis
    using h1 e exNoTxnScript_loop by (simp add: exBatch_facts cleanupCalls_simps)
qed

text \<open>
  C2, amended: let the loop of \<^verbatim>\<open>executeBatchWithConcurrencyRetries\<close> exit by a
  return, with a response or with an error, and, when it holds a cleanup function and
  returns success for a batch that carries a transaction, let the response carry a
  transaction. Then the call returns what the loop returned. When the loop held no
  cleanup function, nothing is added to the calls of the loop. When it held the cleanup
  function \<open>c\<close>, the one call added is the call of \<open>c\<close>, with nil as the conflict and
  with the metadata of the response's transaction exactly when the call succeeded, the
  batch carried a transaction, the response's transaction is not finalized and the batch
  is not read-only, and with nil otherwise; and this is the only call of \<open>c\<close> in the
  whole trace.
\<close>

theorem cleanup_finalized_on_return:
  assumes "collectSpansErr scr = None"
    and "retryLoop r ba fn 0 None (iterations scr) = (Some (Return br pErr), cleanup, levs)"
    and "responseHasTxn ba cleanup br pErr"
  shows "executeBatchWithConcurrencyRetries r ba fn scr =
           (Some (Returned br pErr),
            [CollectSpansCalled, RecordBatchForLoadBasedSplittingCalled] @ levs
            @ (case cleanup of
                 None \<Rightarrow> []
               | Some c \<Rightarrow>
                   [CleanupCalled c None
                      (if wroteIntent ba br pErr then responseTxnMeta br else None)]))
       \<and> (\<forall>c. cleanup = Some c \<longrightarrow>
             cleanupCalls c (snd (executeBatchWithConcurrencyRetries r ba fn scr)) = 1)"
proof (cases cleanup)
  case None
  with assms show ?thesis
    by (simp add: executeBatchWithConcurrencyRetries_def deferredCleanup_def)
next
  case (Some c)
  from assms(2) Some have "cleanupCalls c levs = 0"
    using retryLoop_cleanup [of r ba fn 0 None "iterations scr" "Some (Return br pErr)" c levs]
    by simp
  moreover from assms(3) Some have
    "liveIntent ba br pErr
       = Returns (if wroteIntent ba br pErr then responseTxnMeta br else None)"
    by (simp add: liveIntent_responseHasTxn)
  ultimately show ?thesis
    using assms(1,2) Some
    by (simp add: executeBatchWithConcurrencyRetries_def deferredCleanup_def
        cleanupCalls_simps)
qed

text \<open>
  The example run ends holding the cleanup function of its first pass, with a response
  whose transaction is pending: the call returns, and the function is called once, last,
  with the transaction's metadata.
\<close>

theorem cleanup_finalized_on_return_witness:
  "collectSpansErr exScript = None
   \<and> retryLoop exReplica exBatch executeWriteBatch 0 None (iterations exScript)
       = (Some (Return (Some exResponse) None), Some 0,
          [MaybeWaitForPusheeCalled, BeginCmdsCalled, ExecuteCalled executeWriteBatch,
           ProcessWriteIntentErrorCalled exIntentErr PutRequest exPushHeader PUSH_ABORT,
           MaybeWaitForPusheeCalled, BeginCmdsCalled, ExecuteCalled executeWriteBatch])
   \<and> responseHasTxn exBatch (Some 0) (Some exResponse) None
   \<and> wroteIntent exBatch (Some exResponse) None
   \<and> executeBatchWithConcurrencyRetries exReplica exBatch executeWriteBatch exScript
       = (Some (Returned (Some exResponse) None),
          [CollectSpansCalled, RecordBatchForLoadBasedSplittingCalled,
           MaybeWaitForPusheeCalled, BeginCmdsCalled, ExecuteCalled executeWriteBatch,
           ProcessWriteIntentErrorCalled exIntentErr PutRequest exPushHeader PUSH_ABORT,
           MaybeWaitForPusheeCalled, BeginCmdsCalled, ExecuteCalled executeWriteBatch,
           CleanupCalled 0 None (Some \<lparr>ID = 7, Priority = 1\<rparr>)])
   \<and> cleanupCalls 0
        (snd (executeBatchWithConcurrencyRetries exReplica exBatch executeWriteBatch exScript))
       = 1"
proof -
  have h1: "collectSpansErr exScript = None"
    by (simp add: exScript_def)
  have m: "responseTxnMeta (Some exResponse) = Some \<lparr>ID = 7, Priority = 1\<rparr>"
    by (simp add: responseTxnMeta_def exResponse_def exTxn_def)
  have h3: "responseHasTxn exBatch (Some 0) (Some exResponse) None"
    by (simp add: responseHasTxn_def m)
  have w: "wroteIntent exBatch (Some exResponse) None"
    by (simp add: wroteIntent_def exBatch_facts exResponse_def exTxn_def IsFinalized_def)
  note t = cleanup_finalized_on_return [OF h1 exScript_loop h3]
  from t w m have e:
    "executeBatchWithConcurrencyRetries exReplica exBatch executeWriteBatch exScript
       = (Some (Returned (Some exResponse) None),
          [CollectSpansCalled, RecordBatchForLoadBasedSplittingCalled,
           MaybeWaitForPusheeCalled, BeginCmdsCalled, ExecuteCalled executeWriteBatch,
           ProcessWriteIntentErrorCalled exIntentErr PutRequest exPushHeader PUSH_ABORT,
           MaybeWaitForPusheeCalled, BeginCmdsCalled, ExecuteCalled executeWriteBatch,
           CleanupCalled 0 None (Some \<lparr>ID = 7, Priority = 1\<rparr>)])"
    by simp
  from t have c:
    "cleanupCalls 0
       (snd (executeBatchWithConcurrencyRetries exReplica exBatch executeWriteBatch exScript))
       = 1"
    by blast
  from h1 exScript_loop h3 w e c show ?thesis
    by blast
qed

subsection \<open>The conflict handlers\<close>

lemma exBatch_answer:
  "handleWriteIntentError exReplica exBatch exIntentErr [''k''] None 0 (b, Some pErr')
   = (if isAmbiguousResult (GetDetail (Some pErr'))
      then Returns (if b then Some 0 else None, None)
      else Returns (if b then Some 0 else None, Some (pErr'\<lparr>Index := Some 0\<rparr>)),
      [ProcessWriteIntentErrorCalled exIntentErr PutRequest exPushHeader PUSH_ABORT])"
  by (simp add: handleWriteIntentError_def exPushHeader exBatch_facts exReplica_def
      exIntentErr_def)

text \<open>
  C3: in the write-intent handler, when the intent resolver has been called and answers
  with an ambiguous-result error, the handler returns a nil error (and the resolver's
  cleanup function), so the loop retries; in the indeterminate-commit handler, when the
  recovery has been called and answers with an ambiguous-result error, the handler returns
  nil. Neither handler, run on its own kind of conflict, ever returns an error whose
  detail is an ambiguous result.
\<close>

theorem ambiguous_result_absorbed:
  "(\<forall>b pErr' res evs args h pushType.
      handleWriteIntentError r ba pErr t cleanup fresh (b, Some pErr') = (res, evs)
      \<and> ProcessWriteIntentErrorCalled pErr args h pushType \<in> set evs
      \<and> isAmbiguousResult (GetDetail (Some pErr'))
      \<longrightarrow> res = Returns (if b then Some fresh else None, None))
   \<and> (\<forall>answer cleanup' e evs.
      GoErr pErr = Detail (WriteIntentError t)
      \<and> handleWriteIntentError r ba pErr t cleanup fresh answer = (Returns (cleanup', Some e), evs)
      \<longrightarrow> \<not> isAmbiguousResult (GetDetail (Some e)))
   \<and> (\<forall>err res evs.
      handleIndeterminateCommitError r ba cErr ct (Some err) = (res, evs)
      \<and> ResolveIndeterminateCommitCalled ct \<in> set evs
      \<and> isAmbiguousResultError err
      \<longrightarrow> res = None)
   \<and> (\<forall>answer e evs.
      GoErr cErr = Detail (IndeterminateCommitError ct)
      \<and> handleIndeterminateCommitError r ba cErr ct answer = (Some e, evs)
      \<longrightarrow> \<not> isAmbiguousResult (GetDetail (Some e)))"
  by (auto simp add: handleWriteIntentError_def handleIndeterminateCommitError_def Let_def
      isAmbiguousResult_def GetDetail_def NewError_def
      split: if_splits option.splits)

text \<open>
  On the example batch both handlers absorb an ambiguous result, and the error they
  return for another failure of the resolution is not ambiguous.
\<close>

theorem ambiguous_result_absorbed_witness:
  "isAmbiguousResult (GetDetail (Some exAmbiguousErr))
   \<and> handleWriteIntentError exReplica exBatch exIntentErr [''k''] None 0 (True, Some exAmbiguousErr)
       = (Returns (Some 0, None),
          [ProcessWriteIntentErrorCalled exIntentErr PutRequest exPushHeader PUSH_ABORT])
   \<and> handleIndeterminateCommitError exReplica exBatch exCommitErr exTxn
        (Some (Detail (AmbiguousResultError ''recovery'')))
       = (None, [ResolveIndeterminateCommitCalled exTxn])
   \<and> handleWriteIntentError exReplica exBatch exIntentErr [''k''] None 0 (False, Some exOtherErr)
       = (Returns (None, Some (exOtherErr\<lparr>Index := Some 0\<rparr>)),
          [ProcessWriteIntentErrorCalled exIntentErr PutRequest exPushHeader PUSH_ABORT])
   \<and> \<not> isAmbiguousResult (GetDetail (Some (exOtherErr\<lparr>Index := Some 0\<rparr>)))"
proof -
  have a: "isAmbiguousResult (GetDetail (Some exAmbiguousErr))"
    by (simp add: isAmbiguousResult_def GetDetail_def exAmbiguousErr_def)
  have o: "\<not> isAmbiguousResult (GetDetail (Some exOtherErr))"
    by (simp add: isAmbiguousResult_def GetDetail_def exOtherErr_def)
  have w: "handleWriteIntentError exReplica exBatch exIntentErr [''k''] None 0
             (True, Some exAmbiguousErr)
           = (Returns (Some 0, None),
              [ProcessWriteIntentErrorCalled exIntentErr PutRequest exPushHeader PUSH_ABORT])"
    using a by (simp add: exBatch_answer)
  have c: "handleIndeterminateCommitError exReplica exBatch exCommitErr exTxn
             (Some (Detail (AmbiguousResultError ''recovery'')))
           = (None, [ResolveIndeterminateCommitCalled exTxn])"
    by (simp add: handleIndeterminateCommitError_def exReplica_def)
  have p: "handleWriteIntentError exReplica exBatch exIntentErr [''k''] None 0
             (False, Some exOtherErr)
           = (Returns (None, Some (exOtherErr\<lparr>Index := Some 0\<rparr>)),
              [ProcessWriteIntentErrorCalled exIntentErr PutRequest exPushHeader PUSH_ABORT])"
    using o by (simp add: exBatch_answer)
  have g: "GoErr exIntentErr = Detail (WriteIntentError [''k''])"
    by (simp add: exIntentErr_def)
  from ambiguous_result_absorbed
         [of exReplica exBatch exIntentErr "[''k'']" None 0 exCommitErr exTxn] g p
  have "\<not> isAmbiguousResult (GetDetail (Some (exOtherErr\<lparr>Index := Some 0\<rparr>)))"
    by blast
  with a w c p show ?thesis
    by blast
qed

text \<open>
  C4: every error the write-intent handler returns, and every error the
  indeterminate-commit handler returns, carries the request index of the conflict error
  the handler was given.
\<close>

theorem handler_error_keeps_index:
  "(\<forall>cleanup' e evs.
      handleWriteIntentError r ba pErr t cleanup fresh answer = (Returns (cleanup', Some e), evs)
      \<longrightarrow> Index e = Index pErr)
   \<and> (\<forall>e evs.
      handleIndeterminateCommitError r ba pErr ct canswer = (Some e, evs)
      \<longrightarrow> Index e = Index pErr)"
  by (auto simp add: handleWriteIntentError_def handleIndeterminateCommitError_def Let_def
      NewError_def split: if_splits option.splits)

text \<open>
  A failed push and a failed recovery on the example batch: the errors returned point at
  request 0, as the conflicts did.
\<close>

theorem handler_error_keeps_index_witness:
  "handleWriteIntentError exReplica exBatch exIntentErr [''k''] None 0 (False, Some exOtherErr)
     = (Returns (None, Some \<lparr>GoErr = Detail (OtherDetail ''RangeNotFoundError''), Index = Some 0\<rparr>),
        [ProcessWriteIntentErrorCalled exIntentErr PutRequest exPushHeader PUSH_ABORT])
   \<and> handleIndeterminateCommitError exReplica exBatch exCommitErr exTxn (Some Canceled)
     = (Some \<lparr>GoErr = Canceled, Index = Some 0\<rparr>, [ResolveIndeterminateCommitCalled exTxn])
   \<and> Index exIntentErr = Some 0 \<and> Index exCommitErr = Some 0"
proof -
  have o: "\<not> isAmbiguousResult (GetDetail (Some exOtherErr))"
    by (simp add: isAmbiguousResult_def GetDetail_def exOtherErr_def)
  have p: "handleWriteIntentError exReplica exBatch exIntentErr [''k''] None 0
             (False, Some exOtherErr)
           = (Returns (None, Some (exOtherErr\<lparr>Index := Some 0\<rparr>)),
              [ProcessWriteIntentErrorCalled exIntentErr PutRequest exPushHeader PUSH_ABORT])"
    using o by (simp add: exBatch_answer)
  obtain e where c: "handleIndeterminateCommitError exReplica exBatch exCommitErr exTxn
             (Some Canceled) = (Some e, [ResolveIndeterminateCommitCalled exTxn])"
    and e: "GoErr e = Canceled"
    by (simp add: handleIndeterminateCommitError_def exReplica_def NewError_def)
  from handler_error_keeps_index
         [of exReplica exBatch exCommitErr "[''k'']" None 0 "(False, None)" exTxn "Some Canceled"] c
  have "Index e = Index exCommitErr"
    by blast
  then have "e = \<lparr>GoErr = Canceled, Index = Some 0\<rparr>"
    using e by (cases e) (simp add: exCommitErr_def)
  with p c show ?thesis
    by (simp add: exOtherErr_def exIntentErr_def exCommitErr_def)
qed

text \<open>
  C5: the transaction-push handler returns the conflict error unchanged, and enqueues
  nothing, exactly when the knob \<^verbatim>\<open>DontRetryPushTxnFailures\<close> is set or the batch is
  a single push request that \<^verbatim>\<open>ShouldPushImmediately\<close>, a predicate of the push
  request alone, says to push at once; in every other case it enqueues the pushee
  transaction of the error on the transaction wait queue and returns nil.
\<close>

theorem handleTransactionPushError_cases:
  "handleTransactionPushError r ba pErr t =
     (if DontRetryPushTxnFailures r
         \<or> (\<exists>pushReq. Requests ba = [PushTxnRequest pushReq] \<and> ShouldPushImmediately r pushReq)
      then (Some pErr, [])
      else (None, [EnqueueCalled t]))"
proof (cases "singlePushTxnRequest (Requests ba)")
  case None
  then have "\<nexists>pushReq. Requests ba = [PushTxnRequest pushReq]" by auto
  with None show ?thesis
    by (simp add: handleTransactionPushError_def IsSinglePushTxnRequest_def Let_def)
next
  case (Some p)
  then have "Requests ba = [PushTxnRequest p]"
    by (elim singlePushTxnRequest.elims) auto
  with Some show ?thesis
    by (simp add: handleTransactionPushError_def IsSinglePushTxnRequest_def Let_def)
qed

text \<open>
  A forced push is not retried; a push conflict met by the put batch enqueues the pushee.
\<close>

theorem handleTransactionPushError_cases_witness:
  "handleTransactionPushError exReplica exPushBatch exPushErr exUnobservedTxn = (Some exPushErr, [])
   \<and> handleTransactionPushError exReplica exBatch exPushErr exUnobservedTxn
       = (None, [EnqueueCalled exUnobservedTxn])"
  using handleTransactionPushError_cases [of exReplica exPushBatch exPushErr exUnobservedTxn]
    handleTransactionPushError_cases [of exReplica exBatch exPushErr exUnobservedTxn]
  by (simp add: exReplica_def exPushBatch_def exPushReq_def exBatch_def)

text \<open>
  C6: with a nil merge completion channel the merge-in-progress handler returns nil
  without entering the wait, whatever the wait would do. With a channel it waits, and
  returns nil when the channel is closed, the wrapped error of the context when the context
  is done, and a node-unavailable error when the stopper quiesces; when none of the three
  ever happens it does not return. These are all the values it returns.
\<close>

theorem handleMergeInProgressError_outcomes:
  "handleMergeInProgressError False sel = (Returns None, [])
   \<and> handleMergeInProgressError True (Some MergeComplete) = (Returns None, [MergeWaitEntered])
   \<and> handleMergeInProgressError True (Some (CtxDone err)) =
       (Returns (NewError (Some (Wrap err ''aborted during merge''))), [MergeWaitEntered])
   \<and> handleMergeInProgressError True (Some ShouldQuiesce) =
       (Returns (NewError (Some (Detail NodeUnavailableError))), [MergeWaitEntered])
   \<and> handleMergeInProgressError True None = (Blocks, [MergeWaitEntered])
   \<and> (\<forall>ch s res evs. handleMergeInProgressError ch s = (res, evs) \<longrightarrow>
        res = Returns None
        \<or> (\<exists>cause. s = Some (CtxDone cause)
              \<and> res = Returns (NewError (Some (Wrap cause ''aborted during merge''))))
        \<or> (s = Some ShouldQuiesce
              \<and> res = Returns (NewError (Some (Detail NodeUnavailableError))))
        \<or> (ch \<and> s = None \<and> res = Blocks))"
  by (auto simp add: handleMergeInProgressError_def split: if_splits option.splits SelectCase.splits)

text \<open>A context cancelled during the wait: the handler returns the wrapped cancellation.\<close>

theorem handleMergeInProgressError_outcomes_witness:
  "handleMergeInProgressError True (Some (CtxDone Canceled))
     = (Returns (Some \<lparr>GoErr = Wrap Canceled ''aborted during merge'', Index = None\<rparr>),
        [MergeWaitEntered])
   \<and> handleMergeInProgressError False None = (Returns None, [])"
  using handleMergeInProgressError_outcomes [of None Canceled]
  by (simp add: NewError_def)

subsection \<open>The admin executor\<close>

text \<open>
  C8: for a batch of more than one operation the admin executor returns the error "only
  single-element admin batches allowed" as an ordinary error value, and has made no call
  at all: the lease is neither checked nor acquired and no command is run.
\<close>

theorem executeAdminBatch_rejects_multi:
  "1 < length (Requests ba) \<Longrightarrow>
     executeAdminBatch r ba scr =
       ((None, NewErrorf ''only single-element admin batches allowed''), [])"
  by (simp add: executeAdminBatch_def)

text \<open>A split and a merge in one batch are rejected.\<close>

theorem executeAdminBatch_rejects_multi_witness:
  "1 < length (Requests exAdminBatch)
   \<and> executeAdminBatch exReplica exAdminBatch exScript =
       ((None, Some \<lparr>GoErr = ErrorString ''only single-element admin batches allowed'',
                     Index = None\<rparr>), [])"
proof -
  have h: "1 < length (Requests exAdminBatch)"
    by (simp add: exAdminBatch_def)
  from executeAdminBatch_rejects_multi [OF h, of exReplica exScript] h show ?thesis
    by (simp add: NewErrorf_def)
qed

subsection \<open>The fatal branch of the write-intent handler\<close>




subsection \<open>The response filter\<close>

lemma responseFilterCalls_Nil: "responseFilterCalls [] = 0"
  by (simp add: responseFilterCalls_def)

lemma responseFilterCalls_Cons:
  "responseFilterCalls (ev # evs) =
     (if isResponseFilterCall ev then Suc (responseFilterCalls evs) else responseFilterCalls evs)"
  by (simp add: responseFilterCalls_def)

lemma responseFilterCalls_append:
  "responseFilterCalls (evs @ evs') = responseFilterCalls evs + responseFilterCalls evs'"
  by (simp add: responseFilterCalls_def)

lemmas responseFilterCalls_simps =
  responseFilterCalls_Nil responseFilterCalls_Cons responseFilterCalls_append

text \<open>Nothing below the dispatcher calls the response filter.\<close>

lemma handleWriteIntentError_no_filter:
  "handleWriteIntentError r ba pErr t cleanup n answer = (res, evs) \<Longrightarrow>
     responseFilterCalls evs = 0"
  by (auto simp add: handleWriteIntentError_def Let_def responseFilterCalls_simps
      split: if_splits option.splits)

lemma conflictSwitch_no_filter:
  assumes "conflictSwitch r ba n cleanup it br e d = (fin, cleanup', evs)"
  shows "responseFilterCalls evs = 0"
proof (cases d)
  case (Detail x)
  show ?thesis
  proof (cases x)
    case (WriteIntentError t)
    obtain res hevs where
      h: "handleWriteIntentError r ba e t cleanup n (processWriteIntentError it) = (res, hevs)"
      by (cases "handleWriteIntentError r ba e t cleanup n (processWriteIntentError it)")
    from handleWriteIntentError_no_filter [OF h] assms Detail WriteIntentError h show ?thesis
      by (auto split: Result.splits option.splits)
  next
    case (TransactionPushError t)
    with assms Detail show ?thesis
      by (auto simp add: handleTransactionPushError_def Let_def responseFilterCalls_simps
          split: if_splits option.splits)
  next
    case (IndeterminateCommitError t)
    with assms Detail show ?thesis
      by (auto simp add: handleIndeterminateCommitError_def NewError_def
          responseFilterCalls_simps split: if_splits option.splits)
  next
    case MergeInProgressError
    with assms Detail show ?thesis
      by (auto simp add: handleMergeInProgressError_def NewError_def responseFilterCalls_simps
          split: if_splits option.splits SelectCase.splits)
  qed (use assms Detail in \<open>auto simp add: responseFilterCalls_simps\<close>)
qed (use assms in \<open>auto simp add: responseFilterCalls_simps\<close>)

lemma iteration_no_filter:
  assumes "iteration r ba fn n cleanup it = (fin, cleanup', evs)"
  shows "responseFilterCalls evs = 0"
  using assms
  apply (simp add: iteration_def responseFilterCalls_simps
      split: option.splits prod.splits if_splits)
  apply (auto simp add: responseFilterCalls_simps dest!: conflictSwitch_no_filter)
  done

lemma retryLoop_no_filter:
  "retryLoop r ba fn n cleanup its = (fin, cleanup', evs) \<Longrightarrow> responseFilterCalls evs = 0"
proof (induction its arbitrary: n cleanup fin cleanup' evs)
  case Nil
  then show ?case by (simp add: responseFilterCalls_simps)
next
  case (Cons it its)
  obtain f1 c1 e1 where it: "iteration r ba fn n cleanup it = (f1, c1, e1)"
    by (cases "iteration r ba fn n cleanup it")
  note e1 = iteration_no_filter [OF it]
  show ?case
  proof (cases f1)
    case (Some a)
    with Cons.prems it e1 show ?thesis by auto
  next
    case None
    obtain f2 c2 e2 where rl: "retryLoop r ba fn (Suc n) c1 its = (f2, c2, e2)"
      by (cases "retryLoop r ba fn (Suc n) c1 its")
    from Cons.IH [OF rl] have "responseFilterCalls e2 = 0" .
    with None it rl Cons.prems e1 show ?thesis
      by (auto simp add: responseFilterCalls_simps)
  qed
qed

lemma executeBatchWithConcurrencyRetries_no_filter:
  assumes "executeBatchWithConcurrencyRetries r ba fn scr = (out, evs)"
  shows "responseFilterCalls evs = 0"
proof (cases "collectSpansErr scr")
  case (Some err)
  with assms show ?thesis
    by (auto simp add: executeBatchWithConcurrencyRetries_def responseFilterCalls_simps)
next
  case None
  obtain fin cleanup levs where
    rl: "retryLoop r ba fn 0 None (iterations scr) = (fin, cleanup, levs)"
    by (cases "retryLoop r ba fn 0 None (iterations scr)")
  from retryLoop_no_filter [OF rl] have "responseFilterCalls levs = 0" .
  with assms None rl show ?thesis
    by (auto simp add: executeBatchWithConcurrencyRetries_def deferredCleanup_def Let_def
        responseFilterCalls_simps split: option.splits LoopEnd.splits Result.splits)
qed

lemma executeAdminBatch_no_filter:
  "executeAdminBatch r ba scr = (res, evs) \<Longrightarrow> responseFilterCalls evs = 0"
  by (auto simp add: executeAdminBatch_def Let_def responseFilterCalls_simps
      split: if_splits option.splits prod.splits)

lemma dispatch_no_filter:
  assumes "dispatch r ba useRaft isReadOnly scr = (out, evs)"
  shows "responseFilterCalls evs = 0"
  using assms
  by (auto simp add: dispatch_def responseFilterCalls_simps split: if_splits prod.splits
      dest: executeBatchWithConcurrencyRetries_no_filter executeAdminBatch_no_filter)

lemma requestFilter_no_filter:
  "requestFilter r ba = (res, evs) \<Longrightarrow> responseFilterCalls evs = 0"
  by (auto simp add: requestFilter_def responseFilterCalls_simps split: option.splits)

lemma exBatch_valid: "checkBatchRequest exBatch False = None"
  by (simp add: checkBatchRequest_def exBatch_def exHeader_def zeroTimestamp_def)

lemma exBatch_gateway: "GatewayNodeID (Header exBatch) = 1"
  by (simp add: exBatch_def exHeader_def)

lemma exScripts_backpressure:
  "backpressureErr exFailingScript = None" "backpressureErr exSuccessScript = None"
  by (simp_all add: exFailingScript_def exSuccessScript_def exScript_def)

lemma exFailingPass_loop:
  "retryLoop r exBatch fn n cleanup (exFailingPass # its)
   = (Some (Return None (Some exOtherErr)), cleanup,
      [MaybeWaitForPusheeCalled, BeginCmdsCalled, ExecuteCalled fn])"
  by (simp add: iteration_def exFailingPass_def exSuccessPass_def exOtherErr_def)

lemma exFilterReplica_facts:
  "hasLeaseholderStats exFilterReplica" "maybeStripInFlightWrites exFilterReplica = Inr"
  "TestingRequestFilter exFilterReplica = None"
  "TestingResponseFilter exFilterReplica = Some (\<lambda>ba br. None)"
  by (simp_all add: exFilterReplica_def exReplica_def)

text \<open>
  As C7 states it, an installed response filter is given the final response of every
  dispatched batch. In this run a filter is installed that would turn any result into
  success, the put batch is dispatched to the write path and its only attempt fails with
  an error that is no conflict: the error is returned as it is and the trace holds no
  call of the filter.
\<close>

theorem response_filter_counterexample:
  "TestingResponseFilter exFilterReplica \<noteq> None
   \<and> sendWithRangeID exFilterReplica exBatch exFailingScript
       = (Some (Returned None (Some exOtherErr)),
          [LeaseholderStatsRecorded 1, MaybeInitializeRaftGroupCalled,
           MaybeBackpressureBatchCalled, CollectSpansCalled,
           RecordBatchForLoadBasedSplittingCalled, MaybeWaitForPusheeCalled, BeginCmdsCalled,
           ExecuteCalled executeWriteBatch])
   \<and> responseFilterCalls
        [LeaseholderStatsRecorded 1, MaybeInitializeRaftGroupCalled,
         MaybeBackpressureBatchCalled, CollectSpansCalled,
         RecordBatchForLoadBasedSplittingCalled, MaybeWaitForPusheeCalled, BeginCmdsCalled,
         ExecuteCalled executeWriteBatch] = 0"
proof -
  have e: "executeBatchWithConcurrencyRetries exFilterReplica exBatch executeWriteBatch
             exFailingScript
           = (Some (Returned None (Some exOtherErr)),
              [CollectSpansCalled, RecordBatchForLoadBasedSplittingCalled,
               MaybeWaitForPusheeCalled, BeginCmdsCalled, ExecuteCalled executeWriteBatch])"
    by (simp add: executeBatchWithConcurrencyRetries_def exFailingScript_def exScript_def
        exFailingPass_loop deferredCleanup_def del: retryLoop.simps)
  have s: "sendWithRangeID exFilterReplica exBatch exFailingScript
       = (Some (Returned None (Some exOtherErr)),
          [LeaseholderStatsRecorded 1, MaybeInitializeRaftGroupCalled,
           MaybeBackpressureBatchCalled, CollectSpansCalled,
           RecordBatchForLoadBasedSplittingCalled, MaybeWaitForPusheeCalled, BeginCmdsCalled,
           ExecuteCalled executeWriteBatch])"
    by (simp add: sendWithRangeID_def exBatch_valid exBatch_facts exBatch_gateway
        exScripts_backpressure exFilterReplica_facts requestFilter_def dispatch_def
        afterDispatch_def e)
  show ?thesis
    using s by (simp add: exFilterReplica_facts responseFilterCalls_simps)
qed

text \<open>
  C7, amended: let the dispatcher branch be reached (the batch is valid, no backpressure
  error, no error from the request filter) and return, with a response filter installed.
  When the branch returned no error, the filter is called once, with the batch and the
  response, and the error it returns is the error of the call. When the branch returned an
  error, the filter is not called and that error is returned.
\<close>

theorem response_filter_after_success:
  assumes "checkBatchRequest ba (IsReadOnly ba) = None"
    and "backpressureErr scr = None"
    and "maybeStripInFlightWrites r ba = Inr ba'"
    and "requestFilter r ba' = (None, fevs)"
    and "dispatch r ba' (\<not> IsReadOnly ba \<and> IsWrite ba) (IsReadOnly ba) scr
           = (Some (Returned br pErr), devs)"
    and "TestingResponseFilter r = Some filterFn"
  shows "sendWithRangeID r ba scr =
           (if pErr = None
            then (Some (Returned br (filterFn ba' br)),
                  beforeDispatch r ba @ fevs @ devs @ [ResponseFilterCalled ba' br])
            else (Some (Returned br pErr), beforeDispatch r ba @ fevs @ devs))
       \<and> responseFilterCalls (snd (sendWithRangeID r ba scr)) = (if pErr = None then 1 else 0)"
proof -
  have s: "sendWithRangeID r ba scr =
           (if pErr = None
            then (Some (Returned br (filterFn ba' br)),
                  beforeDispatch r ba @ fevs @ devs @ [ResponseFilterCalled ba' br])
            else (Some (Returned br pErr), beforeDispatch r ba @ fevs @ devs))"
    using assms
    by (simp add: sendWithRangeID_def afterDispatch_def beforeDispatch_def Let_def)
  have "responseFilterCalls (beforeDispatch r ba) = 0"
    by (simp add: beforeDispatch_def responseFilterCalls_simps)
  moreover have "responseFilterCalls fevs = 0"
    using assms(4) by (rule requestFilter_no_filter)
  moreover have "responseFilterCalls devs = 0"
    using assms(5) by (rule dispatch_no_filter)
  ultimately show ?thesis
    using s by (simp add: responseFilterCalls_simps)
qed

text \<open>
  With the same filter installed, a run whose attempt succeeds: the filter is called with
  the response, last, and its answer (nil) is the error of the call.
\<close>

theorem response_filter_after_success_witness:
  "checkBatchRequest exBatch (IsReadOnly exBatch) = None
   \<and> backpressureErr exSuccessScript = None
   \<and> requestFilter exFilterReplica exBatch = (None, [])
   \<and> sendWithRangeID exFilterReplica exBatch exSuccessScript
       = (Some (Returned (Some exResponse) None),
          [LeaseholderStatsRecorded 1, MaybeInitializeRaftGroupCalled,
           MaybeBackpressureBatchCalled, CollectSpansCalled,
           RecordBatchForLoadBasedSplittingCalled, MaybeWaitForPusheeCalled, BeginCmdsCalled,
           ExecuteCalled executeWriteBatch, ResponseFilterCalled exBatch (Some exResponse)])"
proof -
  have h1: "checkBatchRequest exBatch (IsReadOnly exBatch) = None"
    by (simp add: exBatch_valid exBatch_facts)
  have h2: "backpressureErr exSuccessScript = None"
    by (rule exScripts_backpressure)
  have h3: "maybeStripInFlightWrites exFilterReplica exBatch = Inr exBatch"
    by (simp add: exFilterReplica_facts)
  have h4: "requestFilter exFilterReplica exBatch = (None, [])"
    by (simp add: requestFilter_def exFilterReplica_facts)
  have e: "executeBatchWithConcurrencyRetries exFilterReplica exBatch executeWriteBatch
             exSuccessScript
           = (Some (Returned (Some exResponse) None),
              [CollectSpansCalled, RecordBatchForLoadBasedSplittingCalled,
               MaybeWaitForPusheeCalled, BeginCmdsCalled, ExecuteCalled executeWriteBatch])"
    by (simp add: executeBatchWithConcurrencyRetries_def exSuccessScript_def exScript_def
        exSuccessPass_loop deferredCleanup_def del: retryLoop.simps)
  have h5: "dispatch exFilterReplica exBatch (\<not> IsReadOnly exBatch \<and> IsWrite exBatch)
              (IsReadOnly exBatch) exSuccessScript
            = (Some (Returned (Some exResponse) None),
               [CollectSpansCalled, RecordBatchForLoadBasedSplittingCalled,
                MaybeWaitForPusheeCalled, BeginCmdsCalled, ExecuteCalled executeWriteBatch])"
    by (simp add: dispatch_def exBatch_facts e)
  have h6: "TestingResponseFilter exFilterReplica = Some (\<lambda>ba br. None)"
    by (simp add: exFilterReplica_facts)
  have b: "beforeDispatch exFilterReplica exBatch
           = [LeaseholderStatsRecorded 1, MaybeInitializeRaftGroupCalled,
              MaybeBackpressureBatchCalled]"
    by (simp add: beforeDispatch_def exFilterReplica_facts exBatch_gateway)
  from response_filter_after_success [OF h1 h2 h3 h4 h5 h6] b h1 h2 h4 show ?thesis
    by simp
qed

end
